theory Spec2Isabelle
  imports Main "HOL-Library.Word"
begin

unbundle bit_operations_syntax

section \<open>microTCP: data model\<close>

text \<open>
  A shallow embedding of \<^verbatim>\<open>src/lib/microtcp.c\<close>. Every value the C code takes from
  outside (results of \<^verbatim>\<open>rand\<close>, \<^verbatim>\<open>sendto\<close> and \<^verbatim>\<open>recvfrom\<close>, the contents of fresh
  \<^verbatim>\<open>malloc\<close> blocks and of uninitialised locals) is an explicit argument, so every
  function of the model is a pure function of the socket and of its environment.
\<close>

type_synonym byte = "8 word"

text \<open>\<^verbatim>\<open>struct sockaddr\<close>: an address family and the 14 bytes of \<^verbatim>\<open>sa_data\<close>.\<close>

record sockaddr =
  sa_family :: "16 word"
  sa_data :: "byte list"

text \<open>
  The states the source assigns and tests. The enumeration is declared in
  \<^verbatim>\<open>microtcp.h\<close>; these are the enumerators \<^verbatim>\<open>microtcp.c\<close> names.
\<close>

datatype mircotcp_state_t =
  UNKNOWN | INVALID | ESTABLISHED | CLOSING_BY_PEER | CLOSING_BY_HOST | CLOSED

text \<open>
  \<^verbatim>\<open>microtcp_header_t\<close>, in the field order of the wire format:
  seq(32), ack(32), control(16), window(16), data_len(32), three reserved words,
  checksum(32); 32 bytes, no padding.
\<close>

record microtcp_header_t =
  seq_number :: "32 word"
  ack_number :: "32 word"
  control :: "16 word"
  window :: "16 word"
  data_len :: "32 word"
  future_use0 :: "32 word"
  future_use1 :: "32 word"
  future_use2 :: "32 word"
  checksum :: "32 word"

text \<open>
  Modelled from the spec: \<^verbatim>\<open>microtcp_sock_t\<close> is declared in \<^verbatim>\<open>microtcp.h\<close>, which is
  not among the sources. The fields are those \<^verbatim>\<open>microtcp.c\<close> reads and writes; sequence
  and acknowledgment numbers are modular 32-bit counters, the statistics are 64-bit
  counters. \<open>recvbuf\<close> is the content of the block the C pointer refers to.
\<close>

record microtcp_sock_t =
  sd :: int
  state :: mircotcp_state_t
  init_win_size :: nat
  curr_win_size :: nat
  recvbuf :: "byte list"
  buf_fill_level :: nat
  seq_number :: "32 word"
  ack_number :: "32 word"
  packets_send :: "64 word"
  packets_received :: "64 word"
  packets_lost :: "64 word"
  bytes_send :: "64 word"
  bytes_received :: "64 word"
  bytes_lost :: "64 word"
  address :: sockaddr
  address_len :: "32 word"

text \<open>
  Constants of \<^verbatim>\<open>microtcp.h\<close> and of the platform that the source uses without defining
  them: the byte order of the host, the receive buffer length and the advertised window.
\<close>

record config =
  big_endian :: bool
  MICROTCP_RECVBUF_LEN :: nat
  MICROTCP_WIN_SIZE :: nat

text \<open>
  Modelled from the spec: the flag positions \<^verbatim>\<open>ACK_F\<close>, \<^verbatim>\<open>RST_F\<close>, \<^verbatim>\<open>SYN_F\<close>, \<^verbatim>\<open>FIN_F\<close> are
  macros of \<^verbatim>\<open>microtcp.h\<close>; the wire format gives bit0=ACK, bit1=RST, bit2=SYN, bit3=FIN.
\<close>

definition ACK_F :: "16 word" where "ACK_F = 0"
definition RST_F :: "16 word" where "RST_F = 1"
definition SYN_F :: "16 word" where "SYN_F = 2"
definition FIN_F :: "16 word" where "FIN_F = 3"

text \<open>\<^verbatim>\<open>SHUT_RDWR\<close> of \<^verbatim>\<open>sys/socket.h\<close> (its value on Linux).\<close>

definition SHUT_RDWR :: int where "SHUT_RDWR = 2"

text \<open>\<^verbatim>\<open>sizeof(microtcp_header_t)\<close>.\<close>

definition sizeof_header :: nat where "sizeof_header = 32"

section \<open>Byte order and object representation\<close>

definition be_bytes16 :: "16 word \<Rightarrow> byte list" where
  "be_bytes16 x = [ucast (drop_bit 8 x), ucast x]"

definition be_bytes32 :: "32 word \<Rightarrow> byte list" where
  "be_bytes32 x = [ucast (drop_bit 24 x), ucast (drop_bit 16 x), ucast (drop_bit 8 x), ucast x]"

definition be_word16 :: "byte list \<Rightarrow> 16 word" where
  "be_word16 bs = foldl (\<lambda>acc b. push_bit 8 acc OR ucast b) 0 bs"

definition be_word32 :: "byte list \<Rightarrow> 32 word" where
  "be_word32 bs = foldl (\<lambda>acc b. push_bit 8 acc OR ucast b) 0 bs"

text \<open>The bytes of an integer object in the memory of the host, and the integer read back.\<close>

definition store16 :: "bool \<Rightarrow> 16 word \<Rightarrow> byte list" where
  "store16 be x = (if be then be_bytes16 x else rev (be_bytes16 x))"

definition store32 :: "bool \<Rightarrow> 32 word \<Rightarrow> byte list" where
  "store32 be x = (if be then be_bytes32 x else rev (be_bytes32 x))"

definition load16 :: "bool \<Rightarrow> byte list \<Rightarrow> 16 word" where
  "load16 be bs = (if be then be_word16 bs else be_word16 (rev bs))"

definition load32 :: "bool \<Rightarrow> byte list \<Rightarrow> 32 word" where
  "load32 be bs = (if be then be_word32 bs else be_word32 (rev bs))"

text \<open>
  \<^verbatim>\<open>htonl\<close>, \<^verbatim>\<open>htons\<close>: the host integer whose bytes in memory are the network-order
  (big-endian) bytes of the argument; a byte swap on a little-endian host, the identity
  on a big-endian one. \<^verbatim>\<open>ntohl\<close>, \<^verbatim>\<open>ntohs\<close> are the inverse conversions.
\<close>

definition htons :: "bool \<Rightarrow> 16 word \<Rightarrow> 16 word" where
  "htons be x = load16 be (be_bytes16 x)"

definition htonl :: "bool \<Rightarrow> 32 word \<Rightarrow> 32 word" where
  "htonl be x = load32 be (be_bytes32 x)"

definition ntohs :: "bool \<Rightarrow> 16 word \<Rightarrow> 16 word" where
  "ntohs be x = be_word16 (store16 be x)"

definition ntohl :: "bool \<Rightarrow> 32 word \<Rightarrow> 32 word" where
  "ntohl be x = be_word32 (store32 be x)"

text \<open>
  \<open>bytes_at buf off n\<close>: the \<open>n\<close> bytes of a block from offset \<open>off\<close>. Every block the
  source reads a header from is \<^verbatim>\<open>MICROTCP_RECVBUF_LEN\<close> bytes long; for a shorter list
  the model reads zeros beyond its end.
\<close>

definition bytes_at :: "byte list \<Rightarrow> nat \<Rightarrow> nat \<Rightarrow> byte list" where
  "bytes_at buf off n = take n (drop off buf @ replicate n 0)"

text \<open>\<^verbatim>\<open>(uint8_t *)(&header)\<close>: the 32 bytes of a header object.\<close>

definition header_bytes :: "bool \<Rightarrow> microtcp_header_t \<Rightarrow> byte list" where
  "header_bytes be h =
     store32 be (microtcp_header_t.seq_number h) @
     store32 be (microtcp_header_t.ack_number h) @
     store16 be (control h) @
     store16 be (window h) @
     store32 be (data_len h) @
     store32 be (future_use0 h) @
     store32 be (future_use1 h) @
     store32 be (future_use2 h) @
     store32 be (checksum h)"

text \<open>\<^verbatim>\<open>*(microtcp_header_t *)buf\<close>: the header object at the start of a block.\<close>

definition header_at :: "bool \<Rightarrow> byte list \<Rightarrow> microtcp_header_t" where
  "header_at be buf =
     \<lparr> microtcp_header_t.seq_number = load32 be (bytes_at buf 0 4),
       microtcp_header_t.ack_number = load32 be (bytes_at buf 4 4),
       control = load16 be (bytes_at buf 8 2),
       window = load16 be (bytes_at buf 10 2),
       data_len = load32 be (bytes_at buf 12 4),
       future_use0 = load32 be (bytes_at buf 16 4),
       future_use1 = load32 be (bytes_at buf 20 4),
       future_use2 = load32 be (bytes_at buf 24 4),
       checksum = load32 be (bytes_at buf 28 4) \<rparr>"

section \<open>Header codec\<close>

text \<open>\<^verbatim>\<open>set_bit\<close> and \<^verbatim>\<open>get_bit\<close> of the source (lines 66-75).\<close>

definition set_bit_u16 :: "16 word \<Rightarrow> 16 word \<Rightarrow> 16 word" where
  "set_bit_u16 data pos = data OR push_bit (unat pos) 1"

definition get_bit_u16 :: "16 word \<Rightarrow> 16 word \<Rightarrow> 16 word" where
  "get_bit_u16 data pos = drop_bit (unat pos) data AND 1"

text \<open>
  \<^verbatim>\<open>make_header\<close> (lines 77-100). The four statements
  \<^verbatim>\<open>if(ACK) set_bit(tmp_control, ACK_F);\<close> ... call \<^verbatim>\<open>set_bit\<close> and drop what it returns:
  \<^verbatim>\<open>tmp_control\<close> is passed by value and is not assigned. The model binds each dropped
  value to a name of its own. \<open>crc32 buf len\<close> is the external checksum function applied
  to a block and a length.
\<close>

definition make_header ::
  "bool \<Rightarrow> (byte list \<Rightarrow> nat \<Rightarrow> 32 word) \<Rightarrow> 32 word \<Rightarrow> 32 word \<Rightarrow> 16 word \<Rightarrow> 32 word \<Rightarrow>
   byte \<Rightarrow> byte \<Rightarrow> byte \<Rightarrow> byte \<Rightarrow> microtcp_header_t" where
  "make_header be crc32 seq ack win dlen ACK RST SYN FIN =
     (let tmp_control = (0 :: 16 word);
          dropped_ACK = (if ACK \<noteq> 0 then set_bit_u16 tmp_control ACK_F else tmp_control);
          dropped_RST = (if RST \<noteq> 0 then set_bit_u16 tmp_control RST_F else tmp_control);
          dropped_SYN = (if SYN \<noteq> 0 then set_bit_u16 tmp_control SYN_F else tmp_control);
          dropped_FIN = (if FIN \<noteq> 0 then set_bit_u16 tmp_control FIN_F else tmp_control);
          header = \<lparr> microtcp_header_t.seq_number = htonl be seq,
                     microtcp_header_t.ack_number = htonl be ack,
                     control = htons be tmp_control,
                     window = htons be win,
                     data_len = htonl be dlen,
                     future_use0 = 0,
                     future_use1 = 0,
                     future_use2 = 0,
                     checksum = 0 \<rparr>
      in header \<lparr> checksum := htonl be (crc32 (header_bytes be header) sizeof_header) \<rparr>)"

text \<open>\<^verbatim>\<open>get_hbo_header\<close> (lines 103-118).\<close>

definition get_hbo_header :: "bool \<Rightarrow> microtcp_header_t \<Rightarrow> microtcp_header_t" where
  "get_hbo_header be nbo_header =
     \<lparr> microtcp_header_t.seq_number = ntohl be (microtcp_header_t.seq_number nbo_header),
       microtcp_header_t.ack_number = ntohl be (microtcp_header_t.ack_number nbo_header),
       control = ntohs be (control nbo_header),
       window = ntohs be (window nbo_header),
       data_len = ntohl be (data_len nbo_header),
       future_use0 = ntohl be (future_use0 nbo_header),
       future_use1 = ntohl be (future_use1 nbo_header),
       future_use2 = ntohl be (future_use2 nbo_header),
       checksum = ntohl be (checksum nbo_header) \<rparr>"

text \<open>\<^verbatim>\<open>is_header_control_valid\<close> (lines 121-133); returns 1 or 0 as the source does.\<close>

definition is_header_control_valid ::
  "microtcp_header_t \<Rightarrow> byte \<Rightarrow> byte \<Rightarrow> byte \<Rightarrow> byte \<Rightarrow> int" where
  "is_header_control_valid hbo_header ACK RST SYN FIN =
     (if ACK \<noteq> 0 \<and> get_bit_u16 (control hbo_header) ACK_F = 0 then 0
      else if RST \<noteq> 0 \<and> get_bit_u16 (control hbo_header) RST_F = 0 then 0
      else if SYN \<noteq> 0 \<and> get_bit_u16 (control hbo_header) SYN_F = 0 then 0
      else if FIN \<noteq> 0 \<and> get_bit_u16 (control hbo_header) FIN_F = 0 then 0
      else 1)"

text \<open>
  \<^verbatim>\<open>is_equal_addresses\<close> (lines 135-142). \<^verbatim>\<open>strcmp\<close> compares the two \<^verbatim>\<open>sa_data\<close> arrays
  as C strings, that is up to their first zero byte.
\<close>

definition c_string :: "byte list \<Rightarrow> byte list" where
  "c_string bs = takeWhile (\<lambda>c. c \<noteq> 0) bs"

definition is_equal_addresses :: "sockaddr \<Rightarrow> sockaddr \<Rightarrow> int" where
  "is_equal_addresses a b =
     (if sa_family a \<noteq> sa_family b then 0
      else if c_string (sa_data a) \<noteq> c_string (sa_data b) then 0
      else 1)"

text \<open>
  \<^verbatim>\<open>is_checksum_valid\<close> (lines 149-166). \<open>fresh\<close> is the content of the block that
  \<^verbatim>\<open>malloc(msg_len)\<close> returns. \<^verbatim>\<open>memcpy(tmp_header, recv_buf, size)\<close> runs with
  \<^verbatim>\<open>size = 0\<close>, so the block keeps that content, and the checksum is computed over the
  received bytes as they are.
\<close>

definition is_checksum_valid ::
  "bool \<Rightarrow> (byte list \<Rightarrow> nat \<Rightarrow> 32 word) \<Rightarrow> byte list \<Rightarrow> byte list \<Rightarrow> nat \<Rightarrow> int" where
  "is_checksum_valid be crc32 fresh recv_buf msg_len =
     (let size = (0 :: nat);
          tmp_header = take size recv_buf @ drop size fresh;
          received_checksum = ntohl be (checksum (header_at be tmp_header));
          calculated_checksum = ntohl be (crc32 recv_buf msg_len)
      in if received_checksum = calculated_checksum then 1 else 0)"

text \<open>
  Modelled from the spec: \<^verbatim>\<open>crc32\<close> of \<^verbatim>\<open>utils/crc32.h\<close> is not among the sources; the
  spec names it an external pure function, a 32-bit cyclic redundancy check. This is the
  standard CRC-32 (reflected polynomial \<^verbatim>\<open>0xEDB88320\<close>, initial value and final
  complement \<^verbatim>\<open>0xFFFFFFFF\<close>), computed bit by bit over the first \<open>len\<close> bytes. The
  functions of the model take the checksum function as an argument; this one
  instantiates it in the concrete runs.
\<close>

definition crc_shift :: "32 word \<Rightarrow> 32 word" where
  "crc_shift c = (if bit c 0 then drop_bit 1 c XOR 0xEDB88320 else drop_bit 1 c)"

definition crc_update :: "32 word \<Rightarrow> byte \<Rightarrow> 32 word" where
  "crc_update c b =
     crc_shift (crc_shift (crc_shift (crc_shift
       (crc_shift (crc_shift (crc_shift (crc_shift (c XOR ucast b))))))))"

definition crc32_reference :: "byte list \<Rightarrow> nat \<Rightarrow> 32 word" where
  "crc32_reference buf len = NOT (foldl crc_update 0xFFFFFFFF (take len buf))"

section \<open>Environment of a call\<close>

text \<open>
  What one call of \<^verbatim>\<open>recvfrom\<close> delivers: an error (return value -1, nothing written),
  or a datagram with its bytes, its source address and the address length.
\<close>

datatype recv_event = Recv_error | Recv_dgram "byte list" sockaddr "32 word"

text \<open>
  \<^verbatim>\<open>recvfrom(sd, buf, len, MSG_WAITALL, &src_addr, &src_addr_length)\<close> on one event:
  the return value and the new contents of the buffer and of the two address objects.
\<close>

definition recvfrom ::
  "nat \<Rightarrow> byte list \<times> sockaddr \<times> 32 word \<Rightarrow> recv_event \<Rightarrow> int \<times> byte list \<times> sockaddr \<times> 32 word" where
  "recvfrom len dst ev =
     (case dst of (buf, src_addr, src_addr_length) \<Rightarrow>
        (case ev of
           Recv_error \<Rightarrow> (- 1, buf, src_addr, src_addr_length)
         | Recv_dgram bs a l \<Rightarrow>
             (let n = min (length bs) len
              in (int n, take n bs @ drop n buf, a, l))))"

text \<open>
  The values a call takes from outside, other than the incoming datagrams:
  the result of \<^verbatim>\<open>rand\<close>; the return values of the first and second \<^verbatim>\<open>sendto\<close>; the
  contents of the blocks that the first and second call of \<^verbatim>\<open>is_checksum_valid\<close>
  allocate; the contents of the block allocated for \<^verbatim>\<open>recvbuf\<close>; the initial contents of
  the uninitialised locals \<^verbatim>\<open>tmp_buf\<close>, \<^verbatim>\<open>src_addr\<close>, \<^verbatim>\<open>src_addr_length\<close> and \<^verbatim>\<open>syn\<close>.
  Two places of the source are not well-formed C and are kept open:
  line 206 reads \<^verbatim>\<open>socket->state = ;\<close> (\<open>line_206_state\<close> is the value stored), and
  line 322 passes the function \<^verbatim>\<open>recv\<close> as \<^verbatim>\<open>msg_len\<close> (\<open>recv_as_size\<close> is that
  argument). \<open>no_return_value\<close> is what a caller finds as the result of a function that
  ends without a \<^verbatim>\<open>return\<close>.
\<close>

record env =
  rand_result :: int
  sendto_first :: int
  sendto_second :: int
  malloc_first :: "byte list"
  malloc_second :: "byte list"
  malloc_recvbuf :: "byte list"
  stack_tmp_buf :: "byte list"
  stack_src_addr :: sockaddr
  stack_src_addr_length :: "32 word"
  stack_syn :: microtcp_header_t
  line_206_state :: mircotcp_state_t
  recv_as_size :: nat
  no_return_value :: int

text \<open>One call of \<^verbatim>\<open>sendto\<close>: the bytes, the destination and the value returned.\<close>

type_synonym sent = "byte list \<times> sockaddr \<times> int"

text \<open>
  The outcome of a call that returns: the value returned, the socket, the events not
  yet received and the \<^verbatim>\<open>sendto\<close> calls made, in order. A call that waits in
  \<^verbatim>\<open>recvfrom\<close> when no event is left never returns: its outcome is \<open>None\<close>.
\<close>

record result =
  r_value :: int
  r_sock :: microtcp_sock_t
  r_inbox :: "recv_event list"
  r_sent :: "sent list"

text \<open>Conversion of an \<^verbatim>\<open>ssize_t\<close> to the \<^verbatim>\<open>size_t\<close> parameter \<^verbatim>\<open>msg_len\<close> (64 bits).\<close>

definition size_t_of :: "int \<Rightarrow> nat" where
  "size_t_of n = nat (n mod 2 ^ 64)"

section \<open>Connection establishment and teardown\<close>

text \<open>
  The loop \<^verbatim>\<open>do { ret = recvfrom(...); } while(!is_equal_addresses(address, src_addr));\<close>
  of \<^verbatim>\<open>microtcp_connect\<close> (lines 198-200) and of \<^verbatim>\<open>microtcp_accept\<close> (lines 307-310).
\<close>

fun recv_until_from ::
  "nat \<Rightarrow> sockaddr \<Rightarrow> byte list \<times> sockaddr \<times> 32 word \<Rightarrow> recv_event list \<Rightarrow>
   ((int \<times> byte list \<times> sockaddr \<times> 32 word) \<times> recv_event list) option" where
  "recv_until_from len addr dst [] = None"
| "recv_until_from len addr dst (ev # evs) =
     (case recvfrom len dst ev of (ret, buf, src_addr, src_addr_length) \<Rightarrow>
        if is_equal_addresses addr src_addr = 0
        then recv_until_from len addr (buf, src_addr, src_addr_length) evs
        else Some ((ret, buf, src_addr, src_addr_length), evs))"

text \<open>
  The first loop of \<^verbatim>\<open>microtcp_accept\<close> (lines 265-270): receive, decode the header when
  \<^verbatim>\<open>ret > 0\<close>, repeat while the SYN bit of \<^verbatim>\<open>syn\<close> is not set.
\<close>

fun recv_until_syn ::
  "bool \<Rightarrow> nat \<Rightarrow> byte list \<times> sockaddr \<times> 32 word \<Rightarrow> microtcp_header_t \<Rightarrow> recv_event list \<Rightarrow>
   ((int \<times> byte list \<times> sockaddr \<times> 32 word) \<times> microtcp_header_t \<times> recv_event list) option" where
  "recv_until_syn be len dst syn [] = None"
| "recv_until_syn be len dst syn (ev # evs) =
     (case recvfrom len dst ev of (ret, buf, src_addr, src_addr_length) \<Rightarrow>
        (let syn' = (if ret > 0 then get_hbo_header be (header_at be buf) else syn)
         in if is_header_control_valid syn' 0 0 1 0 = 0
            then recv_until_syn be len (buf, src_addr, src_addr_length) syn' evs
            else Some ((ret, buf, src_addr, src_addr_length), syn', evs)))"

text \<open>\<^verbatim>\<open>microtcp_connect\<close> (lines 169-245).\<close>

definition microtcp_connect ::
  "config \<Rightarrow> (byte list \<Rightarrow> nat \<Rightarrow> 32 word) \<Rightarrow> env \<Rightarrow> microtcp_sock_t \<Rightarrow> sockaddr \<Rightarrow> 32 word \<Rightarrow>
   recv_event list \<Rightarrow> result option" where
  "microtcp_connect cfg crc32 e socket addr addr_len inbox =
     (let be = big_endian cfg;
          socket = socket \<lparr> seq_number := word_of_int (rand_result e) \<rparr>;
          syn = make_header be crc32 (seq_number socket) 0 0 0 0 0 1 0;
          bytes_sent = sendto_first e;
          sent1 = [(header_bytes be syn, addr, bytes_sent)]
      in if bytes_sent \<noteq> int sizeof_header
         then Some \<lparr> r_value = sd socket, r_sock = socket \<lparr> state := INVALID \<rparr>,
                     r_inbox = inbox, r_sent = sent1 \<rparr>
         else
           (let socket = socket \<lparr> seq_number := seq_number socket + 1 \<rparr>;
                socket = socket \<lparr> packets_send := packets_send socket + 1 \<rparr>;
                socket = socket \<lparr> bytes_send := bytes_send socket + word_of_int bytes_sent \<rparr>
            in case recv_until_from (MICROTCP_RECVBUF_LEN cfg) addr
                      (stack_tmp_buf e, stack_src_addr e, stack_src_addr_length e) inbox of
                 None \<Rightarrow> None
               | Some ((ret, tmp_buf, src_addr, src_addr_length), inbox) \<Rightarrow>
                   (let synack = get_hbo_header be (header_at be tmp_buf)
                    in if ret \<le> 0
                       then Some \<lparr> r_value = sd socket,
                                   r_sock = socket \<lparr> state := line_206_state e \<rparr>,
                                   r_inbox = inbox, r_sent = sent1 \<rparr>
                       else if is_checksum_valid be crc32 (malloc_first e)
                                 (recvbuf socket) (size_t_of ret) = 0
                       then Some \<lparr> r_value = sd socket, r_sock = socket \<lparr> state := INVALID \<rparr>,
                                   r_inbox = inbox, r_sent = sent1 \<rparr>
                       else if is_header_control_valid synack 1 0 1 0 = 0
                               \<or> microtcp_header_t.ack_number synack \<noteq> seq_number socket
                       then Some \<lparr> r_value = sd socket, r_sock = socket \<lparr> state := INVALID \<rparr>,
                                   r_inbox = inbox, r_sent = sent1 \<rparr>
                       else
                         (let socket = socket \<lparr> address := addr \<rparr>;
                              socket = socket \<lparr> address_len := addr_len \<rparr>;
                              socket = socket \<lparr> recvbuf := malloc_recvbuf e \<rparr>;
                              socket = socket \<lparr> state := ESTABLISHED \<rparr>;
                              socket = socket \<lparr> ack_number :=
                                                   microtcp_header_t.seq_number synack + 1 \<rparr>;
                              ack = make_header be crc32 (seq_number socket) (ack_number socket)
                                      (of_nat (MICROTCP_WIN_SIZE cfg)) 0 1 0 0 0;
                              bytes_sent = sendto_second e;
                              sent2 = sent1 @ [(header_bytes be ack, addr, bytes_sent)]
                          in if bytes_sent \<noteq> int sizeof_header
                             then Some \<lparr> r_value = sd socket,
                                         r_sock = socket \<lparr> state := INVALID \<rparr>,
                                         r_inbox = inbox, r_sent = sent2 \<rparr>
                             else Some \<lparr> r_value = sd socket,
                                         r_sock = socket \<lparr> seq_number := seq_number socket + 1 \<rparr>,
                                         r_inbox = inbox, r_sent = sent2 \<rparr>))))"

text \<open>
  \<^verbatim>\<open>microtcp_accept\<close> (lines 250-339). The arguments \<^verbatim>\<open>address\<close> and \<^verbatim>\<open>address_len\<close> are
  not used by the source.
\<close>

definition microtcp_accept ::
  "config \<Rightarrow> (byte list \<Rightarrow> nat \<Rightarrow> 32 word) \<Rightarrow> env \<Rightarrow> microtcp_sock_t \<Rightarrow> sockaddr \<Rightarrow> 32 word \<Rightarrow>
   recv_event list \<Rightarrow> result option" where
  "microtcp_accept cfg crc32 e socket addr addr_len inbox =
     (let be = big_endian cfg;
          socket = socket \<lparr> recvbuf := malloc_recvbuf e \<rparr>;
          socket = socket \<lparr> buf_fill_level := 0 \<rparr>;
          socket = socket \<lparr> init_win_size := MICROTCP_WIN_SIZE cfg \<rparr>;
          socket = socket \<lparr> curr_win_size := MICROTCP_WIN_SIZE cfg \<rparr>
      in case recv_until_syn be (MICROTCP_RECVBUF_LEN cfg)
                (recvbuf socket, stack_src_addr e, stack_src_addr_length e) (stack_syn e) inbox of
           None \<Rightarrow> None
         | Some ((ret, buf, src_addr, src_addr_length), syn, inbox) \<Rightarrow>
             (let socket = socket \<lparr> recvbuf := buf \<rparr>
              in if is_checksum_valid be crc32 (malloc_first e) (recvbuf socket) (size_t_of ret) = 0
                 then Some \<lparr> r_value = sd socket, r_sock = socket \<lparr> state := INVALID \<rparr>,
                             r_inbox = inbox, r_sent = [] \<rparr>
                 else
                   (let socket = socket \<lparr> seq_number := word_of_int (rand_result e) \<rparr>;
                        socket = socket \<lparr> ack_number := microtcp_header_t.ack_number syn + 1 \<rparr>;
                        socket = socket \<lparr> init_win_size := unat (window syn) \<rparr>;
                        socket = socket \<lparr> curr_win_size := unat (window syn) \<rparr>;
                        socket = socket \<lparr> address := src_addr \<rparr>;
                        socket = socket \<lparr> address_len := src_addr_length \<rparr>;
                        synack = make_header be crc32 (seq_number socket) (ack_number socket)
                                   (of_nat (MICROTCP_WIN_SIZE cfg)) 0 1 0 1 0;
                        bytes_sent = sendto_first e;
                        sent1 = [(header_bytes be synack, address socket, bytes_sent)]
                    in if bytes_sent \<noteq> int sizeof_header
                       then Some \<lparr> r_value = sd socket, r_sock = socket \<lparr> state := INVALID \<rparr>,
                                   r_inbox = inbox, r_sent = sent1 \<rparr>
                       else
                         (let socket = socket \<lparr> seq_number := seq_number socket + 1 \<rparr>;
                              socket = socket \<lparr> bytes_send :=
                                                   bytes_send socket + word_of_int bytes_sent \<rparr>;
                              socket = socket \<lparr> packets_send := packets_send socket + 1 \<rparr>
                          in case recv_until_from (MICROTCP_RECVBUF_LEN cfg) (address socket)
                                    (recvbuf socket, src_addr, src_addr_length) inbox of
                               None \<Rightarrow> None
                             | Some ((ret, buf, src_addr, src_addr_length), inbox) \<Rightarrow>
                                 (let socket = socket \<lparr> recvbuf := buf \<rparr>
                                  in if ret \<le> 0
                                     then Some \<lparr> r_value = sd socket,
                                                 r_sock = socket \<lparr> state := INVALID \<rparr>,
                                                 r_inbox = inbox, r_sent = sent1 \<rparr>
                                     else
                                       (let ack = get_hbo_header be (header_at be (recvbuf socket))
                                        in if is_checksum_valid be crc32 (malloc_second e)
                                                (recvbuf socket) (recv_as_size e) = 0
                                           then Some \<lparr> r_value = sd socket,
                                                       r_sock = socket \<lparr> state := INVALID \<rparr>,
                                                       r_inbox = inbox, r_sent = sent1 \<rparr>
                                           else if is_header_control_valid ack 1 0 0 0 = 0
                                           then Some \<lparr> r_value = sd socket,
                                                       r_sock = socket \<lparr> state := INVALID \<rparr>,
                                                       r_inbox = inbox, r_sent = sent1 \<rparr>
                                           else
                                             (let socket = socket \<lparr> state := ESTABLISHED \<rparr>;
                                                  socket = socket \<lparr> ack_number :=
                                                    microtcp_header_t.seq_number ack + 1 \<rparr>
                                              in Some \<lparr> r_value = sd socket, r_sock = socket,
                                                         r_inbox = inbox, r_sent = sent1 \<rparr>)))))))"

text \<open>
  A single \<^verbatim>\<open>recvfrom(sd, socket->recvbuf, MICROTCP_RECVBUF_LEN, MSG_WAITALL,
  &socket->address, &socket->address_len)\<close> of \<^verbatim>\<open>microtcp_shutdown\<close> (lines 367, 403):
  it writes the buffer and the peer address of the socket itself.
\<close>

definition recv_into_socket ::
  "nat \<Rightarrow> microtcp_sock_t \<Rightarrow> recv_event list \<Rightarrow> (int \<times> microtcp_sock_t \<times> recv_event list) option" where
  "recv_into_socket len socket inbox =
     (case inbox of
        [] \<Rightarrow> None
      | ev # evs \<Rightarrow>
          (case recvfrom len (recvbuf socket, address socket, address_len socket) ev of
             (ret, buf, a, l) \<Rightarrow>
               Some (ret, socket \<lparr> recvbuf := buf, address := a, address_len := l \<rparr>, evs)))"

text \<open>
  \<^verbatim>\<open>microtcp_shutdown\<close> (lines 341-448). \<^verbatim>\<open>free(socket->recvbuf)\<close> releases the block:
  afterwards \<open>recvbuf\<close> has no content.
\<close>

definition microtcp_shutdown ::
  "config \<Rightarrow> (byte list \<Rightarrow> nat \<Rightarrow> 32 word) \<Rightarrow> env \<Rightarrow> microtcp_sock_t \<Rightarrow> int \<Rightarrow>
   recv_event list \<Rightarrow> result option" where
  "microtcp_shutdown cfg crc32 e socket how inbox =
     (let be = big_endian cfg
      in if how = SHUT_RDWR
         then
           (let finack = make_header be crc32 (seq_number socket) (ack_number socket)
                           (of_nat (MICROTCP_WIN_SIZE cfg)) 0 1 0 0 1;
                ret = sendto_first e;
                sent1 = [(header_bytes be finack, address socket, ret)]
            in if ret \<noteq> int sizeof_header
               then Some \<lparr> r_value = sd socket, r_sock = socket \<lparr> state := INVALID \<rparr>,
                           r_inbox = inbox, r_sent = sent1 \<rparr>
               else
                 (case recv_into_socket (MICROTCP_RECVBUF_LEN cfg) socket inbox of
                    None \<Rightarrow> None
                  | Some (ret, socket, inbox) \<Rightarrow>
                      if ret \<le> 0
                      then Some \<lparr> r_value = sd socket, r_sock = socket \<lparr> state := INVALID \<rparr>,
                                  r_inbox = inbox, r_sent = sent1 \<rparr>
                      else if is_checksum_valid be crc32 (malloc_first e)
                                (recvbuf socket) (size_t_of ret) = 0
                      then Some \<lparr> r_value = sd socket, r_sock = socket \<lparr> state := INVALID \<rparr>,
                                  r_inbox = inbox, r_sent = sent1 \<rparr>
                      else
                        (let ack = get_hbo_header be (header_at be (recvbuf socket))
                         in if microtcp_header_t.seq_number ack \<noteq> ack_number socket
                               \<or> microtcp_header_t.ack_number ack \<noteq> seq_number socket
                               \<or> is_header_control_valid ack 1 0 0 0 = 0
                            then Some \<lparr> r_value = sd socket,
                                        r_sock = socket \<lparr> state := INVALID \<rparr>,
                                        r_inbox = inbox, r_sent = sent1 \<rparr>
                            else
                              (let socket = socket \<lparr> seq_number := seq_number socket + 1 \<rparr>
                               in if state socket \<noteq> CLOSING_BY_PEER
                                  then
                                    (let socket = socket \<lparr> state := CLOSING_BY_HOST \<rparr>
                                     in case recv_into_socket (MICROTCP_RECVBUF_LEN cfg)
                                               socket inbox of
                                          None \<Rightarrow> None
                                        | Some (ret, socket, inbox) \<Rightarrow>
                                            if ret \<le> 0
                                            then Some \<lparr> r_value = sd socket,
                                                        r_sock = socket \<lparr> state := INVALID \<rparr>,
                                                        r_inbox = inbox, r_sent = sent1 \<rparr>
                                            else if is_checksum_valid be crc32 (malloc_second e)
                                                      (recvbuf socket) (size_t_of ret) = 0
                                            then Some \<lparr> r_value = sd socket,
                                                        r_sock = socket \<lparr> state := INVALID \<rparr>,
                                                        r_inbox = inbox, r_sent = sent1 \<rparr>
                                            else
                                              (let finack = get_hbo_header be
                                                              (header_at be (recvbuf socket))
                                               in if microtcp_header_t.ack_number finack
                                                       \<noteq> seq_number socket
                                                     \<or> is_header_control_valid finack 1 0 0 1 = 0
                                                  then Some \<lparr> r_value = sd socket,
                                                              r_sock = socket \<lparr> state := INVALID \<rparr>,
                                                              r_inbox = inbox, r_sent = sent1 \<rparr>
                                                  else
                                                    (let socket = socket \<lparr> ack_number :=
                                                           microtcp_header_t.seq_number finack + 1 \<rparr>;
                                                         ack = make_header be crc32
                                                                 (seq_number socket) (ack_number socket)
                                                                 (of_nat (MICROTCP_WIN_SIZE cfg))
                                                                 0 1 0 0 0;
                                                         ret = sendto_second e;
                                                         sent2 = sent1 @
                                                           [(header_bytes be ack, address socket, ret)]
                                                     in if ret < 0
                                                        then Some \<lparr> r_value = sd socket,
                                                               r_sock = socket \<lparr> state := INVALID \<rparr>,
                                                               r_inbox = inbox, r_sent = sent2 \<rparr>
                                                        else Some \<lparr> r_value = sd socket,
                                                               r_sock = socket \<lparr> state := CLOSED,
                                                                                 recvbuf := [] \<rparr>,
                                                               r_inbox = inbox, r_sent = sent2 \<rparr>)))
                                  else Some \<lparr> r_value = sd socket,
                                              r_sock = socket \<lparr> state := CLOSED, recvbuf := [] \<rparr>,
                                              r_inbox = inbox, r_sent = sent1 \<rparr>))))
         else Some \<lparr> r_value = sd socket, r_sock = socket, r_inbox = inbox, r_sent = [] \<rparr>)"

text \<open>
  \<^verbatim>\<open>microtcp_send\<close> and \<^verbatim>\<open>microtcp_recv\<close> (lines 450-461). Their bodies hold the comment
  \<^verbatim>\<open>/* Your code here */\<close> and nothing else: no statement touches the socket, the
  network or the buffer, and no value is returned.
\<close>

definition microtcp_send ::
  "env \<Rightarrow> microtcp_sock_t \<Rightarrow> byte list \<Rightarrow> nat \<Rightarrow> int \<Rightarrow> recv_event list \<Rightarrow> result" where
  "microtcp_send e socket buffer len flags inbox =
     \<lparr> r_value = no_return_value e, r_sock = socket, r_inbox = inbox, r_sent = [] \<rparr>"

definition microtcp_recv ::
  "env \<Rightarrow> microtcp_sock_t \<Rightarrow> nat \<Rightarrow> int \<Rightarrow> recv_event list \<Rightarrow> result" where
  "microtcp_recv e socket len flags inbox =
     \<lparr> r_value = no_return_value e, r_sock = socket, r_inbox = inbox, r_sent = [] \<rparr>"

text \<open>
  \<^verbatim>\<open>microtcp_socket\<close> (lines 29-52). \<open>s\<close> is the uninitialised local the source fills
  in, \<open>socket_result\<close> the value returned by \<^verbatim>\<open>socket\<close>.
\<close>

definition microtcp_socket :: "microtcp_sock_t \<Rightarrow> int \<Rightarrow> microtcp_sock_t" where
  "microtcp_socket s socket_result =
     (let s = s \<lparr> sd := socket_result \<rparr>
      in if sd s = - 1 then s \<lparr> state := INVALID \<rparr>
         else s \<lparr> packets_send := 0, packets_received := 0, packets_lost := 0,
                  bytes_send := 0, bytes_received := 0, bytes_lost := 0, state := UNKNOWN \<rparr>)"

section \<open>Concrete values for the runs below\<close>

text \<open>
  A little-endian host with the buffer and window sizes of the reference
  \<^verbatim>\<open>microtcp.h\<close>, two IPv4 endpoints, and zero-filled memory.
\<close>

definition example_cfg :: config where
  "example_cfg = \<lparr> big_endian = False, MICROTCP_RECVBUF_LEN = 8192, MICROTCP_WIN_SIZE = 8192 \<rparr>"

definition initiator_addr :: sockaddr where
  "initiator_addr =
     \<lparr> sa_family = 2, sa_data = [0x9C, 0x40, 10, 0, 0, 1, 0, 0, 0, 0, 0, 0, 0, 0] \<rparr>"

definition responder_addr :: sockaddr where
  "responder_addr =
     \<lparr> sa_family = 2, sa_data = [0x1F, 0x90, 10, 0, 0, 2, 0, 0, 0, 0, 0, 0, 0, 0] \<rparr>"

definition zero_addr :: sockaddr where
  "zero_addr = \<lparr> sa_family = 0, sa_data = [0, 0, 0, 0, 0, 0, 0, 0, 0, 0, 0, 0, 0, 0] \<rparr>"

definition zero_header :: microtcp_header_t where
  "zero_header =
     \<lparr> microtcp_header_t.seq_number = 0, microtcp_header_t.ack_number = 0, control = 0,
       window = 0, data_len = 0, future_use0 = 0, future_use1 = 0, future_use2 = 0,
       checksum = 0 \<rparr>"

text \<open>
  A socket object before \<^verbatim>\<open>microtcp_socket\<close> fills it in. \<open>recvbuf = []\<close> is a pointer
  to no block. \<^verbatim>\<open>microtcp_accept\<close> allocates the block itself (line 254);
  \<^verbatim>\<open>microtcp_connect\<close> reads through the pointer at line 211 before it allocates at
  line 227, so its runs start from \<open>connect_sock\<close> below.
\<close>

definition zero_sock :: microtcp_sock_t where
  "zero_sock =
     \<lparr> sd = 0, state = UNKNOWN, init_win_size = 0, curr_win_size = 0, recvbuf = [],
       buf_fill_level = 0, seq_number = 0, ack_number = 0, packets_send = 0,
       packets_received = 0, packets_lost = 0, bytes_send = 0, bytes_received = 0,
       bytes_lost = 0, address = zero_addr, address_len = 0 \<rparr>"

text \<open>
  The socket of the \<^verbatim>\<open>microtcp_connect\<close> runs: \<^verbatim>\<open>microtcp_socket\<close> returned descriptor 3
  and the caller pointed \<^verbatim>\<open>recvbuf\<close> at a zero-filled block of
  \<^verbatim>\<open>MICROTCP_RECVBUF_LEN\<close> bytes, so that the read of line 211 is inside a block.
\<close>

definition connect_sock :: microtcp_sock_t where
  "connect_sock = (microtcp_socket zero_sock 3) \<lparr> recvbuf := replicate 8192 0 \<rparr>"

definition zero_block :: "byte list" where
  "zero_block = [0, 0, 0, 0, 0, 0, 0, 0, 0, 0, 0, 0, 0, 0, 0, 0,
                 0, 0, 0, 0, 0, 0, 0, 0, 0, 0, 0, 0, 0, 0, 0, 0]"

text \<open>A 32-byte block whose last four bytes are the object representation of \<open>c\<close>.\<close>

definition block_with_checksum :: "bool \<Rightarrow> 32 word \<Rightarrow> byte list" where
  "block_with_checksum be c = take 28 zero_block @ store32 be c"

text \<open>
  A segment without payload as the wire format of the spec lays it out: the fields in
  network byte order, the reserved words zero, the checksum taken over the header with a
  zeroed checksum field. The encoder of the sources never sets a control bit, so the
  runs below build the segments an endpoint receives with this one.
\<close>

definition wire_segment :: "32 word \<Rightarrow> 32 word \<Rightarrow> 16 word \<Rightarrow> 16 word \<Rightarrow> byte list" where
  "wire_segment seq ack ctl win =
     (let fields = be_bytes32 seq @ be_bytes32 ack @ be_bytes16 ctl @ be_bytes16 win @
                   take 16 zero_block
      in fields @ be_bytes32 (crc32_reference (fields @ [0, 0, 0, 0]) 32))"

text \<open>
  A SYN+ACK of the scenario (sequence 500, acknowledgment 101, ACK and SYN bits) whose
  checksum field was overwritten in transit with \<^verbatim>\<open>DE AD BE EF\<close>.
\<close>

definition corrupt_synack :: "byte list" where
  "corrupt_synack = take 28 (wire_segment 500 101 5 8192) @ [0xDE, 0xAD, 0xBE, 0xEF]"

text \<open>
  The environment of the runs: \<^verbatim>\<open>rand\<close> gives 100, both transmissions succeed, fresh
  memory is zero-filled. \<open>line_206_state\<close> is \<^verbatim>\<open>UNKNOWN\<close>, the state \<^verbatim>\<open>microtcp_socket\<close>
  left. \<open>recv_as_size\<close> is the address of \<^verbatim>\<open>recv\<close> in the C library of a 64-bit Linux
  process; a validation with that length reads far beyond every buffer, so no run below
  goes through line 322 with it.
\<close>

definition example_env :: env where
  "example_env =
     \<lparr> rand_result = 100, sendto_first = 32, sendto_second = 32,
       malloc_first = zero_block, malloc_second = zero_block,
       malloc_recvbuf = replicate 8192 0, stack_tmp_buf = replicate 8192 0,
       stack_src_addr = zero_addr, stack_src_addr_length = 0, stack_syn = zero_header,
       line_206_state = UNKNOWN, recv_as_size = 0x7FFFF7D1B2F0, no_return_value = 0 \<rparr>"

text \<open>A socket after the handshake of the scenario, as the teardown scenario assumes it.\<close>

definition established_sock :: microtcp_sock_t where
  "established_sock =
     zero_sock \<lparr> sd := 3, state := ESTABLISHED, recvbuf := replicate 8192 0,
                 seq_number := 101, ack_number := 501,
                 address := responder_addr, address_len := 16 \<rparr>"

text \<open>What a caller can observe of an outcome: return value, state and the two counters.\<close>

definition outcome ::
  "result option \<Rightarrow> (int \<times> mircotcp_state_t \<times> 32 word \<times> 32 word) option" where
  "outcome ro =
     (case ro of
        None \<Rightarrow> None
      | Some r \<Rightarrow> Some (r_value r, state (r_sock r), seq_number (r_sock r),
                         ack_number (r_sock r)))"

text \<open>The headers, in host byte order, of the datagrams a call handed to \<^verbatim>\<open>sendto\<close>.\<close>

definition sent_headers :: "bool \<Rightarrow> result option \<Rightarrow> microtcp_header_t list" where
  "sent_headers be ro =
     (case ro of
        None \<Rightarrow> []
      | Some r \<Rightarrow> map (\<lambda>d. get_hbo_header be (header_at be (fst d))) (r_sent r))"

text \<open>The events a call left unread.\<close>

definition unread :: "result option \<Rightarrow> recv_event list" where
  "unread ro = (case ro of None \<Rightarrow> [] | Some r \<Rightarrow> r_inbox r)"

text \<open>
  An environment in which the blocks of the two checksum validations happen to hold the
  reference checksum of the first 32 bytes of \<open>seg1\<close> and of \<open>seg2\<close>.
\<close>

definition passing_env :: "byte list \<Rightarrow> byte list \<Rightarrow> env" where
  "passing_env seg1 seg2 =
     example_env
       \<lparr> malloc_first := block_with_checksum False (crc32_reference seg1 32),
         malloc_second := block_with_checksum False (crc32_reference seg2 32) \<rparr>"

section \<open>Facts about byte order\<close>

lemma byte_bit_high:
  "bit (b :: byte) (8 + n) = False"
  "bit (b :: byte) (16 + n) = False"
  "bit (b :: byte) (24 + n) = False"
  by (auto dest: bit_imp_le_length)

lemma be_word32_bytes: "be_word32 (be_bytes32 x) = x"
  unfolding be_word32_def be_bytes32_def
  apply simp
  apply (rule bit_word_eqI)
  subgoal for n
    apply (cases "n < 8"; cases "n < 16"; cases "n < 24")
           apply (auto simp: bit_simps)
    done
  done

lemma be_bytes32_word: "be_bytes32 (be_word32 [a, b, c, d]) = [a, b, c, d]"
  unfolding be_word32_def be_bytes32_def
  apply simp
  apply (intro conjI; rule bit_word_eqI)
     apply (auto simp: bit_simps byte_bit_high)
  done

lemma load32_store32: "load32 be (store32 be x) = x"
  by (simp add: load32_def store32_def be_word32_bytes)

lemma store32_load32: "store32 be (load32 be [a, b, c, d]) = [a, b, c, d]"
  by (simp add: load32_def store32_def be_bytes32_word)

lemma ntohl_htonl: "ntohl be (htonl be x) = x"
proof -
  obtain a b c d where s: "be_bytes32 x = [a, b, c, d]"
    by (simp add: be_bytes32_def)
  have "ntohl be (htonl be x) = be_word32 (store32 be (load32 be [a, b, c, d]))"
    by (simp add: htonl_def ntohl_def s)
  also have "\<dots> = be_word32 (be_bytes32 x)"
    by (simp only: store32_load32 s)
  finally show ?thesis
    by (simp add: be_word32_bytes)
qed

lemma htonl_ntohl: "htonl be (ntohl be x) = x"
proof -
  obtain a b c d where s: "store32 be x = [a, b, c, d]"
    by (cases be) (simp_all add: store32_def be_bytes32_def)
  have "htonl be (ntohl be x) = load32 be (be_bytes32 (be_word32 [a, b, c, d]))"
    by (simp add: htonl_def ntohl_def s)
  also have "\<dots> = load32 be (store32 be x)"
    by (simp only: be_bytes32_word s)
  finally show ?thesis
    by (simp add: load32_store32)
qed

lemma ntohl_eq_iff: "(ntohl be x = ntohl be y) = (x = y)"
  by (metis htonl_ntohl)

lemma htons_zero: "htons be 0 = 0"
  by (simp add: htons_def load16_def be_bytes16_def be_word16_def)

lemma ntohs_zero: "ntohs be 0 = 0"
  by (simp add: ntohs_def store16_def be_bytes16_def be_word16_def)

section \<open>Facts about the codec\<close>

lemma is_checksum_valid_iff:
  "(is_checksum_valid be crc32 fresh recv_buf msg_len \<noteq> 0) =
   (checksum (header_at be fresh) = crc32 recv_buf msg_len)"
  by (simp add: is_checksum_valid_def Let_def ntohl_eq_iff)

lemma is_checksum_valid_cases:
  "is_checksum_valid be crc32 fresh recv_buf msg_len = 0 \<or>
   is_checksum_valid be crc32 fresh recv_buf msg_len = 1"
  by (simp add: is_checksum_valid_def Let_def)

lemma get_bit_u16_zero_iff: "(get_bit_u16 c p = 0) = (\<not> bit c (unat p))"
  by (simp add: get_bit_u16_def and_one_eq bit_iff_odd_drop_bit even_iff_mod_2_eq_zero)

lemma is_header_control_valid_iff:
  "(is_header_control_valid h ACK RST SYN FIN \<noteq> 0) =
   ((ACK \<noteq> 0 \<longrightarrow> bit (control h) 0) \<and> (RST \<noteq> 0 \<longrightarrow> bit (control h) 1) \<and>
    (SYN \<noteq> 0 \<longrightarrow> bit (control h) 2) \<and> (FIN \<noteq> 0 \<longrightarrow> bit (control h) 3))"
  by (simp add: is_header_control_valid_def get_bit_u16_zero_iff ACK_F_def RST_F_def SYN_F_def
      FIN_F_def)

lemma make_header_control: "control (make_header be crc32 s a w d ACK RST SYN FIN) = 0"
  by (simp add: make_header_def Let_def htons_zero)

section \<open>General facts about the three operations\<close>

lemma connect_established:
  assumes "sendto_first e = int sizeof_header"
    and "recv_until_from (MICROTCP_RECVBUF_LEN cfg) addr
           (stack_tmp_buf e, stack_src_addr e, stack_src_addr_length e) inbox =
         Some ((ret, tmp_buf, sa, sl), rest)"
    and "0 < ret"
    and "is_checksum_valid (big_endian cfg) crc32 (malloc_first e) (recvbuf socket)
           (size_t_of ret) \<noteq> 0"
    and "is_header_control_valid
           (get_hbo_header (big_endian cfg) (header_at (big_endian cfg) tmp_buf)) 1 0 1 0 \<noteq> 0"
    and "microtcp_header_t.ack_number
           (get_hbo_header (big_endian cfg) (header_at (big_endian cfg) tmp_buf)) =
         word_of_int (rand_result e) + 1"
    and "sendto_second e = int sizeof_header"
  shows "outcome (microtcp_connect cfg crc32 e socket addr alen inbox) =
         Some (sd socket, ESTABLISHED, word_of_int (rand_result e) + 2,
               microtcp_header_t.seq_number
                 (get_hbo_header (big_endian cfg) (header_at (big_endian cfg) tmp_buf)) + 1)"
  using assms by (simp add: microtcp_connect_def outcome_def Let_def)

lemma connect_failed:
  assumes "sendto_first e = int sizeof_header"
    and "recv_until_from (MICROTCP_RECVBUF_LEN cfg) addr
           (stack_tmp_buf e, stack_src_addr e, stack_src_addr_length e) inbox =
         Some ((ret, tmp_buf, sa, sl), rest)"
    and "0 < ret"
    and "is_checksum_valid (big_endian cfg) crc32 (malloc_first e) (recvbuf socket)
           (size_t_of ret) = 0
         \<or> is_header_control_valid
             (get_hbo_header (big_endian cfg) (header_at (big_endian cfg) tmp_buf)) 1 0 1 0 = 0
         \<or> microtcp_header_t.ack_number
             (get_hbo_header (big_endian cfg) (header_at (big_endian cfg) tmp_buf)) \<noteq>
           word_of_int (rand_result e) + 1"
  shows "outcome (microtcp_connect cfg crc32 e socket addr alen inbox) =
           Some (sd socket, INVALID, word_of_int (rand_result e) + 1, ack_number socket)
         \<and> unread (microtcp_connect cfg crc32 e socket addr alen inbox) = rest"
  using assms by (auto simp add: microtcp_connect_def outcome_def unread_def Let_def)

lemma accept_first_checksum_failed:
  assumes "recv_until_syn (big_endian cfg) (MICROTCP_RECVBUF_LEN cfg)
             (malloc_recvbuf e, stack_src_addr e, stack_src_addr_length e) (stack_syn e) inbox =
           Some ((ret1, buf1, sa1, sl1), syn, rest1)"
    and "is_checksum_valid (big_endian cfg) crc32 (malloc_first e) buf1 (size_t_of ret1) = 0"
  shows "outcome (microtcp_accept cfg crc32 e socket addr alen inbox) =
           Some (sd socket, INVALID, seq_number socket, ack_number socket)
         \<and> unread (microtcp_accept cfg crc32 e socket addr alen inbox) = rest1"
  using assms by (simp add: microtcp_accept_def outcome_def unread_def Let_def)

lemma accept_second_checksum_failed:
  assumes "recv_until_syn (big_endian cfg) (MICROTCP_RECVBUF_LEN cfg)
             (malloc_recvbuf e, stack_src_addr e, stack_src_addr_length e) (stack_syn e) inbox =
           Some ((ret1, buf1, sa1, sl1), syn, rest1)"
    and "is_checksum_valid (big_endian cfg) crc32 (malloc_first e) buf1 (size_t_of ret1) \<noteq> 0"
    and "sendto_first e = int sizeof_header"
    and "recv_until_from (MICROTCP_RECVBUF_LEN cfg) sa1 (buf1, sa1, sl1) rest1 =
           Some ((ret2, buf2, sa2, sl2), rest2)"
    and "0 < ret2"
    and "is_checksum_valid (big_endian cfg) crc32 (malloc_second e) buf2 (recv_as_size e) = 0"
  shows "outcome (microtcp_accept cfg crc32 e socket addr alen inbox) =
           Some (sd socket, INVALID, word_of_int (rand_result e) + 1,
                 microtcp_header_t.ack_number syn + 1)
         \<and> unread (microtcp_accept cfg crc32 e socket addr alen inbox) = rest2"
  using assms by (simp add: microtcp_accept_def outcome_def unread_def Let_def)

lemma shutdown_first_checksum_failed:
  assumes "sendto_first e = int sizeof_header"
    and "recvfrom (MICROTCP_RECVBUF_LEN cfg) (recvbuf socket, address socket, address_len socket)
           ev = (ret, buf, a, l)"
    and "0 < ret"
    and "is_checksum_valid (big_endian cfg) crc32 (malloc_first e) buf (size_t_of ret) = 0"
  shows "outcome (microtcp_shutdown cfg crc32 e socket SHUT_RDWR (ev # rest)) =
           Some (sd socket, INVALID, seq_number socket, ack_number socket)
         \<and> unread (microtcp_shutdown cfg crc32 e socket SHUT_RDWR (ev # rest)) = rest"
  using assms
  by (simp add: microtcp_shutdown_def recv_into_socket_def outcome_def unread_def Let_def)

lemma shutdown_second_checksum_failed:
  assumes "sendto_first e = int sizeof_header"
    and "recvfrom (MICROTCP_RECVBUF_LEN cfg) (recvbuf socket, address socket, address_len socket)
           ev = (ret, buf, a, l)"
    and "0 < ret"
    and "is_checksum_valid (big_endian cfg) crc32 (malloc_first e) buf (size_t_of ret) \<noteq> 0"
    and "microtcp_header_t.seq_number
           (get_hbo_header (big_endian cfg) (header_at (big_endian cfg) buf)) = ack_number socket"
    and "microtcp_header_t.ack_number
           (get_hbo_header (big_endian cfg) (header_at (big_endian cfg) buf)) = seq_number socket"
    and "is_header_control_valid
           (get_hbo_header (big_endian cfg) (header_at (big_endian cfg) buf)) 1 0 0 0 \<noteq> 0"
    and "state socket \<noteq> CLOSING_BY_PEER"
    and "recvfrom (MICROTCP_RECVBUF_LEN cfg) (buf, a, l) ev2 = (ret2, buf2, a2, l2)"
    and "0 < ret2"
    and "is_checksum_valid (big_endian cfg) crc32 (malloc_second e) buf2 (size_t_of ret2) = 0"
  shows "outcome (microtcp_shutdown cfg crc32 e socket SHUT_RDWR (ev # ev2 # rest)) =
           Some (sd socket, INVALID, seq_number socket + 1, ack_number socket)
         \<and> unread (microtcp_shutdown cfg crc32 e socket SHUT_RDWR (ev # ev2 # rest)) = rest"
  using assms
  by (simp add: microtcp_shutdown_def recv_into_socket_def outcome_def unread_def Let_def)

lemma shutdown_rejects_ack_number:
  assumes "sendto_first e = int sizeof_header"
    and "recvfrom (MICROTCP_RECVBUF_LEN cfg) (recvbuf socket, address socket, address_len socket)
           ev = (ret, buf, a, l)"
    and "0 < ret"
    and "microtcp_header_t.ack_number
           (get_hbo_header (big_endian cfg) (header_at (big_endian cfg) buf)) \<noteq> seq_number socket"
  shows "outcome (microtcp_shutdown cfg crc32 e socket SHUT_RDWR (ev # rest)) =
         Some (sd socket, INVALID, seq_number socket, ack_number socket)"
  using assms by (simp add: microtcp_shutdown_def recv_into_socket_def Let_def outcome_def)

lemma returns_sd_connect:
  "microtcp_connect cfg crc32 e socket addr alen inbox = Some r \<Longrightarrow>
   r_value r = sd socket \<and> sd (r_sock r) = sd socket \<and>
   state (r_sock r) \<in> {ESTABLISHED, INVALID, line_206_state e}"
  unfolding microtcp_connect_def Let_def
  by (auto split: option.splits prod.splits if_splits)

lemma returns_sd_accept:
  "microtcp_accept cfg crc32 e socket addr alen inbox = Some r \<Longrightarrow>
   r_value r = sd socket \<and> sd (r_sock r) = sd socket \<and>
   state (r_sock r) \<in> {ESTABLISHED, INVALID}"
  unfolding microtcp_accept_def Let_def
  by (auto split: option.splits prod.splits if_splits)

lemma returns_sd_shutdown:
  "microtcp_shutdown cfg crc32 e socket how inbox = Some r \<Longrightarrow>
   r_value r = sd socket \<and> sd (r_sock r) = sd socket \<and>
   (if how = SHUT_RDWR then state (r_sock r) \<in> {CLOSED, INVALID}
    else state (r_sock r) = state socket)"
  unfolding microtcp_shutdown_def Let_def recv_into_socket_def
  by (auto split: option.splits prod.splits if_splits list.splits)

lemma shutdown_blocks_only_on_empty_inbox:
  "microtcp_shutdown cfg crc32 e socket how inbox = None \<Longrightarrow>
   how = SHUT_RDWR \<and> length inbox < 2"
  unfolding microtcp_shutdown_def Let_def recv_into_socket_def
  by (auto split: option.splits prod.splits if_splits list.splits)

text \<open>
  A reply to the SYN without the ACK bit (bit 0) or the SYN bit (bit 2), or with another
  acknowledgment number than the initial sequence number plus one, ends
  \<^verbatim>\<open>microtcp_connect\<close> in \<^verbatim>\<open>INVALID\<close>.
\<close>

lemma connect_bad_flags_or_ack_is_invalid:
  assumes "sendto_first e = int sizeof_header"
    and "recv_until_from (MICROTCP_RECVBUF_LEN cfg) addr
           (stack_tmp_buf e, stack_src_addr e, stack_src_addr_length e) inbox =
         Some ((ret, tmp_buf, sa, sl), rest)"
    and "0 < ret"
    and "\<not> (bit (control (get_hbo_header (big_endian cfg)
                              (header_at (big_endian cfg) tmp_buf))) 0
             \<and> bit (control (get_hbo_header (big_endian cfg)
                                (header_at (big_endian cfg) tmp_buf))) 2)
         \<or> microtcp_header_t.ack_number
               (get_hbo_header (big_endian cfg) (header_at (big_endian cfg) tmp_buf)) \<noteq>
             word_of_int (rand_result e) + 1"
  shows "outcome (microtcp_connect cfg crc32 e socket addr alen inbox) =
         Some (sd socket, INVALID, word_of_int (rand_result e) + 1, ack_number socket)"
proof -
  have "(is_header_control_valid
           (get_hbo_header (big_endian cfg) (header_at (big_endian cfg) tmp_buf)) 1 0 1 0 = 0) =
        (\<not> (bit (control (get_hbo_header (big_endian cfg)
                              (header_at (big_endian cfg) tmp_buf))) 0
             \<and> bit (control (get_hbo_header (big_endian cfg)
                                (header_at (big_endian cfg) tmp_buf))) 2))"
    using is_header_control_valid_iff
      [of "get_hbo_header (big_endian cfg) (header_at (big_endian cfg) tmp_buf)" 1 0 1 0]
    by auto
  with assms(4) have
    "is_checksum_valid (big_endian cfg) crc32 (malloc_first e) (recvbuf socket)
       (size_t_of ret) = 0
     \<or> is_header_control_valid
         (get_hbo_header (big_endian cfg) (header_at (big_endian cfg) tmp_buf)) 1 0 1 0 = 0
     \<or> microtcp_header_t.ack_number
         (get_hbo_header (big_endian cfg) (header_at (big_endian cfg) tmp_buf)) \<noteq>
       word_of_int (rand_result e) + 1"
    by auto
  from connect_failed [OF assms(1) assms(2) assms(3) this] show ?thesis
    by (rule conjunct1)
qed

text \<open>
  What a caller observes of each operation, path by path: the value returned is the
  socket descriptor on every path that returns, and the state is the one the path assigns.
\<close>

lemma connect_outcome:
  "outcome (microtcp_connect cfg crc32 e socket addr alen inbox) =
     (if sendto_first e \<noteq> int sizeof_header
      then Some (sd socket, INVALID, word_of_int (rand_result e), ack_number socket)
      else
        (case recv_until_from (MICROTCP_RECVBUF_LEN cfg) addr
                (stack_tmp_buf e, stack_src_addr e, stack_src_addr_length e) inbox of
           None \<Rightarrow> None
         | Some ((ret, tmp_buf, sa, sl), rest) \<Rightarrow>
             if ret \<le> 0
             then Some (sd socket, line_206_state e, word_of_int (rand_result e) + 1,
                        ack_number socket)
             else if is_checksum_valid (big_endian cfg) crc32 (malloc_first e)
                       (recvbuf socket) (size_t_of ret) = 0
                     \<or> is_header_control_valid (get_hbo_header (big_endian cfg) (header_at (big_endian cfg) tmp_buf)) 1 0 1 0 = 0
                     \<or> microtcp_header_t.ack_number (get_hbo_header (big_endian cfg) (header_at (big_endian cfg) tmp_buf)) \<noteq>
                         word_of_int (rand_result e) + 1
             then Some (sd socket, INVALID, word_of_int (rand_result e) + 1,
                        ack_number socket)
             else if sendto_second e \<noteq> int sizeof_header
             then Some (sd socket, INVALID, word_of_int (rand_result e) + 1,
                        microtcp_header_t.seq_number (get_hbo_header (big_endian cfg) (header_at (big_endian cfg) tmp_buf)) + 1)
             else Some (sd socket, ESTABLISHED, word_of_int (rand_result e) + 2,
                        microtcp_header_t.seq_number (get_hbo_header (big_endian cfg) (header_at (big_endian cfg) tmp_buf)) + 1)))"
  by (auto simp add: microtcp_connect_def outcome_def Let_def split: option.splits)

lemma accept_outcome:
  "outcome (microtcp_accept cfg crc32 e socket addr alen inbox) =
     (case recv_until_syn (big_endian cfg) (MICROTCP_RECVBUF_LEN cfg)
             (malloc_recvbuf e, stack_src_addr e, stack_src_addr_length e) (stack_syn e)
             inbox of
        None \<Rightarrow> None
      | Some ((ret, buf, sa, sl), syn, mid) \<Rightarrow>
          if is_checksum_valid (big_endian cfg) crc32 (malloc_first e) buf (size_t_of ret) = 0
          then Some (sd socket, INVALID, seq_number socket, ack_number socket)
          else if sendto_first e \<noteq> int sizeof_header
          then Some (sd socket, INVALID, word_of_int (rand_result e),
                     microtcp_header_t.ack_number syn + 1)
          else
            (case recv_until_from (MICROTCP_RECVBUF_LEN cfg) sa (buf, sa, sl) mid of
               None \<Rightarrow> None
             | Some ((ret', buf', sa', sl'), rest) \<Rightarrow>
                 if ret' \<le> 0
                    \<or> is_checksum_valid (big_endian cfg) crc32 (malloc_second e) buf'
                        (recv_as_size e) = 0
                    \<or> is_header_control_valid (get_hbo_header (big_endian cfg) (header_at (big_endian cfg) buf')) 1 0 0 0 = 0
                 then Some (sd socket, INVALID, word_of_int (rand_result e) + 1,
                            microtcp_header_t.ack_number syn + 1)
                 else Some (sd socket, ESTABLISHED, word_of_int (rand_result e) + 1,
                            microtcp_header_t.seq_number (get_hbo_header (big_endian cfg) (header_at (big_endian cfg) buf')) + 1)))"
  by (auto simp add: microtcp_accept_def outcome_def Let_def split: option.splits)

lemma shutdown_outcome:
  "outcome (microtcp_shutdown cfg crc32 e socket how inbox) =
     (if how \<noteq> SHUT_RDWR
      then Some (sd socket, state socket, seq_number socket, ack_number socket)
      else if sendto_first e \<noteq> int sizeof_header
      then Some (sd socket, INVALID, seq_number socket, ack_number socket)
      else
        (case inbox of
           [] \<Rightarrow> None
         | ev # rest \<Rightarrow>
             (case recvfrom (MICROTCP_RECVBUF_LEN cfg)
                     (recvbuf socket, address socket, address_len socket) ev of
                (ret, buf, sa, sl) \<Rightarrow>
                  if ret \<le> 0
                     \<or> is_checksum_valid (big_endian cfg) crc32 (malloc_first e) buf
                         (size_t_of ret) = 0
                     \<or> microtcp_header_t.seq_number (get_hbo_header (big_endian cfg) (header_at (big_endian cfg) buf)) \<noteq> ack_number socket
                     \<or> microtcp_header_t.ack_number (get_hbo_header (big_endian cfg) (header_at (big_endian cfg) buf)) \<noteq> seq_number socket
                     \<or> is_header_control_valid (get_hbo_header (big_endian cfg) (header_at (big_endian cfg) buf)) 1 0 0 0 = 0
                  then Some (sd socket, INVALID, seq_number socket, ack_number socket)
                  else if state socket = CLOSING_BY_PEER
                  then Some (sd socket, CLOSED, seq_number socket + 1, ack_number socket)
                  else
                    (case rest of
                       [] \<Rightarrow> None
                     | ev' # rest' \<Rightarrow>
                         (case recvfrom (MICROTCP_RECVBUF_LEN cfg) (buf, sa, sl) ev' of
                            (ret', buf', sa', sl') \<Rightarrow>
                              if ret' \<le> 0
                                 \<or> is_checksum_valid (big_endian cfg) crc32 (malloc_second e)
                                     buf' (size_t_of ret') = 0
                                 \<or> microtcp_header_t.ack_number (get_hbo_header (big_endian cfg) (header_at (big_endian cfg) buf')) \<noteq>
                                     seq_number socket + 1
                                 \<or> is_header_control_valid (get_hbo_header (big_endian cfg) (header_at (big_endian cfg) buf')) 1 0 0 1 = 0
                              then Some (sd socket, INVALID, seq_number socket + 1,
                                         ack_number socket)
                              else if sendto_second e < 0
                              then Some (sd socket, INVALID, seq_number socket + 1,
                                         microtcp_header_t.seq_number (get_hbo_header (big_endian cfg) (header_at (big_endian cfg) buf')) + 1)
                              else Some (sd socket, CLOSED, seq_number socket + 1,
                                         microtcp_header_t.seq_number (get_hbo_header (big_endian cfg) (header_at (big_endian cfg) buf')) + 1))))))"
proof (cases "how \<noteq> SHUT_RDWR \<or> sendto_first e \<noteq> int sizeof_header")
  case True
  then show ?thesis
    by (auto simp add: microtcp_shutdown_def outcome_def Let_def)
next
  case False
  show ?thesis
  proof (cases inbox)
    case Nil
    with False show ?thesis
      by (simp add: microtcp_shutdown_def recv_into_socket_def outcome_def Let_def)
  next
    case (Cons ev rest)
    obtain ret buf sa sl where first:
      "recvfrom (MICROTCP_RECVBUF_LEN cfg) (recvbuf socket, address socket, address_len socket)
         ev = (ret, buf, sa, sl)"
      by (cases "recvfrom (MICROTCP_RECVBUF_LEN cfg)
                   (recvbuf socket, address socket, address_len socket) ev")
    show ?thesis
    proof (cases rest)
      case Nil
      with False Cons first show ?thesis
        by (simp add: microtcp_shutdown_def recv_into_socket_def outcome_def Let_def)
    next
      case (Cons ev' rest')
      obtain ret' buf' sa' sl' where second:
        "recvfrom (MICROTCP_RECVBUF_LEN cfg) (buf, sa, sl) ev' = (ret', buf', sa', sl')"
        by (cases "recvfrom (MICROTCP_RECVBUF_LEN cfg) (buf, sa, sl) ev'")
      from False \<open>inbox = ev # rest\<close> Cons first second show ?thesis
        by (simp add: microtcp_shutdown_def recv_into_socket_def outcome_def Let_def)
    qed
  qed
qed

text \<open>
  Once \<^verbatim>\<open>microtcp_accept\<close> has sent its SYN+ACK, the sequence number of the socket is the
  result of \<^verbatim>\<open>rand\<close> plus one on every path that returns.
\<close>

lemma accept_seq_number_after_synack:
  assumes "recv_until_syn (big_endian cfg) (MICROTCP_RECVBUF_LEN cfg)
             (malloc_recvbuf e, stack_src_addr e, stack_src_addr_length e) (stack_syn e) inbox =
           Some ((ret, buf, sa, sl), syn, mid)"
    and "is_checksum_valid (big_endian cfg) crc32 (malloc_first e) buf (size_t_of ret) \<noteq> 0"
    and "sendto_first e = int sizeof_header"
    and "microtcp_accept cfg crc32 e socket addr alen inbox = Some r"
  shows "r_value r = sd socket \<and> seq_number (r_sock r) = word_of_int (rand_result e) + 1"
  using assms
  by (auto simp add: microtcp_accept_def Let_def split: option.splits if_splits)

lemma outcome_SomeD:
  "outcome ro = Some (v, st, s, a) \<Longrightarrow>
   \<exists>r. ro = Some r \<and> r_value r = v \<and> state (r_sock r) = st"
  by (auto simp: outcome_def split: option.splits)

section \<open>Evaluation of the concrete runs\<close>

lemma zero_prefix:
  "replicate 32 (0 :: byte) =
     [0, 0, 0, 0, 0, 0, 0, 0, 0, 0, 0, 0, 0, 0, 0, 0,
      0, 0, 0, 0, 0, 0, 0, 0, 0, 0, 0, 0, 0, 0, 0, 0]"
  by (simp add: numeral_eq_Suc)

lemmas codec_defs =
  wire_segment_def zero_block_def block_with_checksum_def be_bytes32_def be_bytes16_def
  be_word32_def be_word16_def store32_def store16_def load32_def load16_def
  htonl_def htons_def ntohl_def ntohs_def bytes_at_def header_bytes_def header_at_def
  get_hbo_header_def make_header_def is_checksum_valid_def is_header_control_valid_def
  get_bit_u16_def set_bit_u16_def ACK_F_def RST_F_def SYN_F_def FIN_F_def sizeof_header_def
  crc32_reference_def crc_update_def crc_shift_def Let_def zero_prefix

lemma let_arg_cong: "a = b \<Longrightarrow> Let a t = Let b t"
  by simp

lemmas run_defs =
  microtcp_connect_def microtcp_accept_def microtcp_shutdown_def recv_into_socket_def
  microtcp_socket_def recvfrom_def is_equal_addresses_def c_string_def size_t_of_def
  example_cfg_def example_env_def zero_sock_def established_sock_def zero_addr_def
  zero_header_def initiator_addr_def responder_addr_def SHUT_RDWR_def outcome_def
  sent_headers_def unread_def passing_env_def connect_sock_def

lemma syn_segment:
  "wire_segment 100 0 4 8192 =
     [0, 0, 0, 100, 0, 0, 0, 0, 0, 4, 32, 0, 0, 0, 0, 0,
      0, 0, 0, 0, 0, 0, 0, 0, 0, 0, 0, 0, 102, 246, 38, 176]"
  by (simp add: codec_defs cong: let_arg_cong prod.case_cong_weak)

lemma synack_segment:
  "wire_segment 500 101 5 8192 =
     [0, 0, 1, 244, 0, 0, 0, 101, 0, 5, 32, 0, 0, 0, 0, 0,
      0, 0, 0, 0, 0, 0, 0, 0, 0, 0, 0, 0, 255, 122, 208, 23]"
  by (simp add: codec_defs cong: let_arg_cong prod.case_cong_weak)

lemma ack_segment:
  "wire_segment 101 501 1 8192 =
     [0, 0, 0, 101, 0, 0, 1, 245, 0, 1, 32, 0, 0, 0, 0, 0,
      0, 0, 0, 0, 0, 0, 0, 0, 0, 0, 0, 0, 217, 203, 11, 73]"
  by (simp add: codec_defs cong: let_arg_cong prod.case_cong_weak)

lemma fin_ack_102_segment:
  "wire_segment 501 102 1 8192 =
     [0, 0, 1, 245, 0, 0, 0, 102, 0, 1, 32, 0, 0, 0, 0, 0,
      0, 0, 0, 0, 0, 0, 0, 0, 0, 0, 0, 0, 169, 204, 30, 243]"
  by (simp add: codec_defs cong: let_arg_cong prod.case_cong_weak)

lemma fin_ack_101_segment:
  "wire_segment 501 101 1 8192 =
     [0, 0, 1, 245, 0, 0, 0, 101, 0, 1, 32, 0, 0, 0, 0, 0,
      0, 0, 0, 0, 0, 0, 0, 0, 0, 0, 0, 0, 156, 33, 168, 160]"
  by (simp add: codec_defs cong: let_arg_cong prod.case_cong_weak)

lemma peer_finack_segment:
  "wire_segment 501 102 9 8192 =
     [0, 0, 1, 245, 0, 0, 0, 102, 0, 9, 32, 0, 0, 0, 0, 0,
      0, 0, 0, 0, 0, 0, 0, 0, 0, 0, 0, 0, 169, 117, 93, 213]"
  by (simp add: codec_defs cong: let_arg_cong prod.case_cong_weak)

lemmas segments =
  syn_segment synack_segment ack_segment fin_ack_102_segment fin_ack_101_segment
  peer_finack_segment

lemma synack_only_ack_segment:
  "wire_segment 500 101 1 8192 =
     [0, 0, 1, 244, 0, 0, 0, 101, 0, 1, 32, 0, 0, 0, 0, 0,
      0, 0, 0, 0, 0, 0, 0, 0, 0, 0, 0, 0, 255, 38, 113, 132]"
  by (simp add: codec_defs cong: let_arg_cong prod.case_cong_weak)

lemma synack_ack_100_segment:
  "wire_segment 500 100 5 8192 =
     [0, 0, 1, 244, 0, 0, 0, 100, 0, 5, 32, 0, 0, 0, 0, 0,
      0, 0, 0, 0, 0, 0, 0, 0, 0, 0, 0, 0, 90, 241, 64, 25]"
  by (simp add: codec_defs cong: let_arg_cong prod.case_cong_weak)

lemmas more_segments = synack_only_ack_segment synack_ack_100_segment

text \<open>The blocks of \<open>passing_env\<close> for these segments.\<close>

lemma block_syn:
  "block_with_checksum False (crc32_reference (wire_segment 100 0 4 8192) 32) =
     [0, 0, 0, 0, 0, 0, 0, 0, 0, 0, 0, 0, 0, 0, 0, 0,
      0, 0, 0, 0, 0, 0, 0, 0, 0, 0, 0, 0, 165, 177, 77, 193]"
  by (simp add: segments) (simp add: codec_defs)

lemma block_ack:
  "block_with_checksum False (crc32_reference (wire_segment 101 501 1 8192) 32) =
     [0, 0, 0, 0, 0, 0, 0, 0, 0, 0, 0, 0, 0, 0, 0, 0,
      0, 0, 0, 0, 0, 0, 0, 0, 0, 0, 0, 0, 4, 164, 153, 243]"
  by (simp add: segments) (simp add: codec_defs)

lemma block_fin_ack_101:
  "block_with_checksum False (crc32_reference (wire_segment 501 101 1 8192) 32) =
     [0, 0, 0, 0, 0, 0, 0, 0, 0, 0, 0, 0, 0, 0, 0, 0,
      0, 0, 0, 0, 0, 0, 0, 0, 0, 0, 0, 0, 98, 79, 48, 226]"
  by (simp add: segments) (simp add: codec_defs)

lemma block_fin_ack_102:
  "block_with_checksum False (crc32_reference (wire_segment 501 102 1 8192) 32) =
     [0, 0, 0, 0, 0, 0, 0, 0, 0, 0, 0, 0, 0, 0, 0, 0,
      0, 0, 0, 0, 0, 0, 0, 0, 0, 0, 0, 0, 33, 187, 239, 241]"
  by (simp add: segments) (simp add: codec_defs)

lemma block_peer_finack:
  "block_with_checksum False (crc32_reference (wire_segment 501 102 9 8192) 32) =
     [0, 0, 0, 0, 0, 0, 0, 0, 0, 0, 0, 0, 0, 0, 0, 0,
      0, 0, 0, 0, 0, 0, 0, 0, 0, 0, 0, 0, 163, 164, 128, 50]"
  by (simp add: segments) (simp add: codec_defs)

lemma block_empty:
  "block_with_checksum False (crc32_reference [] 32) =
     [0, 0, 0, 0, 0, 0, 0, 0, 0, 0, 0, 0, 0, 0, 0, 0,
      0, 0, 0, 0, 0, 0, 0, 0, 0, 0, 0, 0, 0, 0, 0, 0]"
  by (simp add: codec_defs)

lemma block_zero_buffer:
  "block_with_checksum False (crc32_reference (replicate 8192 0) 32) =
     [0, 0, 0, 0, 0, 0, 0, 0, 0, 0, 0, 0, 0, 0, 0, 0,
      0, 0, 0, 0, 0, 0, 0, 0, 0, 0, 0, 0, 173, 85, 10, 25]"
  by (simp add: crc32_reference_def zero_prefix) (simp add: codec_defs)

lemma corrupt_synack_bytes:
  "corrupt_synack =
     [0, 0, 1, 244, 0, 0, 0, 101, 0, 5, 32, 0, 0, 0, 0, 0,
      0, 0, 0, 0, 0, 0, 0, 0, 0, 0, 0, 0, 222, 173, 190, 239]"
  by (simp add: corrupt_synack_def segments)

lemmas blocks =
  block_syn block_ack block_fin_ack_101 block_fin_ack_102 block_peer_finack block_empty
  block_zero_buffer

lemma connect_bad_flags_run:
  "outcome (microtcp_connect example_cfg crc32_reference
      (passing_env (replicate 8192 0) []) connect_sock responder_addr 16
      [Recv_dgram (wire_segment 500 101 1 8192) responder_addr 16]) =
   Some (3, INVALID, 101, 0)"
  by ((simp only: passing_env_def blocks)?, simp add: more_segments,
      simp add: run_defs codec_defs cong: let_arg_cong prod.case_cong_weak)

lemma connect_bad_ack_run:
  "outcome (microtcp_connect example_cfg crc32_reference
      (passing_env (replicate 8192 0) []) connect_sock responder_addr 16
      [Recv_dgram (wire_segment 500 100 5 8192) responder_addr 16]) =
   Some (3, INVALID, 101, 0)"
  by ((simp only: passing_env_def blocks)?, simp add: more_segments,
      simp add: run_defs codec_defs cong: let_arg_cong prod.case_cong_weak)

lemma accept_unanswered_run:
  "outcome (microtcp_accept example_cfg crc32_reference
      ((passing_env (wire_segment 100 0 4 8192) []) \<lparr> rand_result := 500 \<rparr>)
      (microtcp_socket zero_sock 4) zero_addr 0
      [Recv_dgram (wire_segment 100 0 4 8192) initiator_addr 16,
       Recv_dgram [] initiator_addr 16]) =
   Some (4, INVALID, 501, 1)"
  by ((simp only: passing_env_def blocks)?, simp add: segments,
      simp add: run_defs codec_defs cong: let_arg_cong prod.case_cong_weak)

lemma teardown_run_with_ack_101:
  "outcome (microtcp_shutdown example_cfg crc32_reference
      (passing_env (wire_segment 501 101 1 8192) (wire_segment 501 102 9 8192))
      established_sock SHUT_RDWR
      [Recv_dgram (wire_segment 501 101 1 8192) responder_addr 16,
       Recv_dgram (wire_segment 501 102 9 8192) responder_addr 16]) =
   Some (3, CLOSED, 102, 502)"
  by ((simp only: passing_env_def blocks)?, simp add: segments,
      simp add: run_defs codec_defs cong: let_arg_cong prod.case_cong_weak)

section \<open>The claims\<close>

text \<open>
  C1. The claim: for every header the encoder builds, checksum verification of the
  encoded bytes succeeds. The code: \<^verbatim>\<open>is_checksum_valid\<close> allocates a block, copies
  0 bytes into it, and compares the checksum field of that block with the checksum of
  the received bytes, taken with the checksum field as transmitted. So its verdict on an
  encoded header is decided by what the fresh block holds. For the SYN header
  \<^verbatim>\<open>make_header(100, 0, 0, 0, 0, 0, 1, 0)\<close> on a little-endian host it returns 0 when the
  fresh block is zero-filled, and also when the block holds a copy of the received bytes.
\<close>

theorem encoded_header_fails_checksum_validation:
  "(is_checksum_valid be crc32 fresh
      (header_bytes be (make_header be crc32 seq ack win dlen ACK RST SYN FIN))
      sizeof_header \<noteq> 0) =
   (checksum (header_at be fresh) =
      crc32 (header_bytes be (make_header be crc32 seq ack win dlen ACK RST SYN FIN))
        sizeof_header)
   \<and> is_checksum_valid False crc32_reference zero_block
       (header_bytes False (make_header False crc32_reference 100 0 0 0 0 0 1 0))
       sizeof_header = 0
   \<and> is_checksum_valid False crc32_reference
       (header_bytes False (make_header False crc32_reference 100 0 0 0 0 0 1 0))
       (header_bytes False (make_header False crc32_reference 100 0 0 0 0 0 1 0))
       sizeof_header = 0"
proof (intro conjI)
  show "(is_checksum_valid be crc32 fresh
      (header_bytes be (make_header be crc32 seq ack win dlen ACK RST SYN FIN))
      sizeof_header \<noteq> 0) =
    (checksum (header_at be fresh) =
      crc32 (header_bytes be (make_header be crc32 seq ack win dlen ACK RST SYN FIN))
        sizeof_header)"
    by (rule is_checksum_valid_iff)
  show "is_checksum_valid False crc32_reference zero_block
      (header_bytes False (make_header False crc32_reference 100 0 0 0 0 0 1 0))
      sizeof_header = 0"
    by (simp add: codec_defs cong: let_arg_cong)
  show "is_checksum_valid False crc32_reference
      (header_bytes False (make_header False crc32_reference 100 0 0 0 0 0 1 0))
      (header_bytes False (make_header False crc32_reference 100 0 0 0 0 0 1 0))
      sizeof_header = 0"
    by (simp add: codec_defs cong: let_arg_cong)
qed

text \<open>
  C2. The claim: in the handshake scenario (initial sequence numbers 100 and 500) the
  initiator ends with sequence number 101 and acknowledgment number 501. The code:
  \<^verbatim>\<open>microtcp_connect\<close> adds one to the sequence number after the SYN (line 193) and once
  more after the final ACK (line 242). The initiator draws 100, its \<^verbatim>\<open>recvbuf\<close> points
  at a block, the validation of line 211 passes and the peer answers with the SYN+ACK of
  the scenario: it ends \<^verbatim>\<open>ESTABLISHED\<close> with sequence number 102.
\<close>

theorem handshake_scenario_counterexample:
  "outcome (microtcp_connect example_cfg crc32_reference
      (passing_env (replicate 8192 0) []) connect_sock responder_addr 16
      [Recv_dgram (wire_segment 500 101 5 8192) responder_addr 16]) =
   Some (3, ESTABLISHED, 102, 501)"
  by ((simp only: passing_env_def blocks)?, simp add: segments,
      simp add: run_defs codec_defs cong: let_arg_cong prod.case_cong_weak)

text \<open>
  C2, as amended. Initiator: when it draws 100, both transmissions succeed, the
  validation of line 211 passes and the reply from the peer address has sequence 500,
  acknowledgment 101 and the ACK and SYN bits, \<^verbatim>\<open>microtcp_connect\<close> ends \<^verbatim>\<open>ESTABLISHED\<close>
  with sequence number 102 and acknowledgment number 501. Responder: when it draws 500,
  the validation of the SYN passes and the SYN+ACK is sent, \<^verbatim>\<open>microtcp_accept\<close> holds
  sequence number 501 whenever it returns. Nothing is said of the responder's
  acknowledgment number and final state, which lines 284 and 322 decide.
\<close>

theorem handshake_scenario_as_coded:
  assumes "rand_result ei = 100"
    and "sendto_first ei = int sizeof_header"
    and "sendto_second ei = int sizeof_header"
    and "recv_until_from (MICROTCP_RECVBUF_LEN cfg) addr
           (stack_tmp_buf ei, stack_src_addr ei, stack_src_addr_length ei) inbox_i =
         Some ((ret, tmp_buf, sa, sl), rest_i)"
    and "0 < ret"
    and "is_checksum_valid (big_endian cfg) crc32 (malloc_first ei) (recvbuf socket_i)
           (size_t_of ret) \<noteq> 0"
    and "microtcp_header_t.seq_number
           (get_hbo_header (big_endian cfg) (header_at (big_endian cfg) tmp_buf)) = 500"
    and "microtcp_header_t.ack_number
           (get_hbo_header (big_endian cfg) (header_at (big_endian cfg) tmp_buf)) = 101"
    and "bit (control (get_hbo_header (big_endian cfg) (header_at (big_endian cfg) tmp_buf))) 0"
    and "bit (control (get_hbo_header (big_endian cfg) (header_at (big_endian cfg) tmp_buf))) 2"
    and "rand_result er = 500"
    and "recv_until_syn (big_endian cfg) (MICROTCP_RECVBUF_LEN cfg)
           (malloc_recvbuf er, stack_src_addr er, stack_src_addr_length er) (stack_syn er)
           inbox_r =
         Some ((ret_s, buf_s, sa_s, sl_s), syn, rest_s)"
    and "is_checksum_valid (big_endian cfg) crc32 (malloc_first er) buf_s (size_t_of ret_s) \<noteq> 0"
    and "sendto_first er = int sizeof_header"
    and "microtcp_accept cfg crc32 er socket_r addr_r alen_r inbox_r = Some rr"
  shows "outcome (microtcp_connect cfg crc32 ei socket_i addr alen inbox_i) =
           Some (sd socket_i, ESTABLISHED, 102, 501)
         \<and> r_value rr = sd socket_r \<and> seq_number (r_sock rr) = 501"
proof
  have flags: "is_header_control_valid
      (get_hbo_header (big_endian cfg) (header_at (big_endian cfg) tmp_buf)) 1 0 1 0 \<noteq> 0"
    using assms(9,10) by (simp add: is_header_control_valid_iff)
  have ack: "microtcp_header_t.ack_number
      (get_hbo_header (big_endian cfg) (header_at (big_endian cfg) tmp_buf)) =
      word_of_int (rand_result ei) + 1"
    using assms(1,8) by simp
  from connect_established [OF assms(2) assms(4) assms(5) assms(6) flags ack assms(3)]
  show "outcome (microtcp_connect cfg crc32 ei socket_i addr alen inbox_i) =
          Some (sd socket_i, ESTABLISHED, 102, 501)"
    using assms(1,7) by simp
next
  from accept_seq_number_after_synack [OF assms(12) assms(13) assms(14) assms(15)]
  show "r_value rr = sd socket_r \<and> seq_number (r_sock rr) = 501"
    using assms(11) by simp
qed

text \<open>
  The amended C2 at the segments of the scenario. The responder's call returns because
  the datagram that follows the SYN is empty (line 313).
\<close>

theorem handshake_scenario_as_coded_witness:
  "outcome (microtcp_connect example_cfg crc32_reference
      (passing_env (replicate 8192 0) []) connect_sock responder_addr 16
      [Recv_dgram (wire_segment 500 101 5 8192) responder_addr 16]) =
   Some (3, ESTABLISHED, 102, 501)
   \<and> (\<exists>rr. microtcp_accept example_cfg crc32_reference
          ((passing_env (wire_segment 100 0 4 8192) []) \<lparr> rand_result := 500 \<rparr>)
          (microtcp_socket zero_sock 4) zero_addr 0
          [Recv_dgram (wire_segment 100 0 4 8192) initiator_addr 16,
           Recv_dgram [] initiator_addr 16] = Some rr
        \<and> r_value rr = 4 \<and> seq_number (r_sock rr) = 501)"
proof -
  from outcome_SomeD [OF accept_unanswered_run] obtain rr where
    rr: "microtcp_accept example_cfg crc32_reference
           ((passing_env (wire_segment 100 0 4 8192) []) \<lparr> rand_result := 500 \<rparr>)
           (microtcp_socket zero_sock 4) zero_addr 0
           [Recv_dgram (wire_segment 100 0 4 8192) initiator_addr 16,
            Recv_dgram [] initiator_addr 16] = Some rr"
    by blast
  have "outcome (microtcp_connect example_cfg crc32_reference
      (passing_env (replicate 8192 0) []) connect_sock responder_addr 16
      [Recv_dgram (wire_segment 500 101 5 8192) responder_addr 16]) =
    Some (sd connect_sock, ESTABLISHED, 102, 501)
    \<and> r_value rr = sd (microtcp_socket zero_sock 4) \<and> seq_number (r_sock rr) = 501"
    by (rule handshake_scenario_as_coded
          [where ret = 32 and tmp_buf = "wire_segment 500 101 5 8192 @ replicate 8160 0"
             and sa = responder_addr and sl = 16 and rest_i = "[]"
             and ret_s = 32 and buf_s = "wire_segment 100 0 4 8192 @ replicate 8160 0"
             and sa_s = initiator_addr and sl_s = 16
             and syn = "get_hbo_header False
                          (header_at False (wire_segment 100 0 4 8192 @ replicate 8160 0))"
             and rest_s = "[Recv_dgram [] initiator_addr 16]",
           OF _ _ _ _ _ _ _ _ _ _ _ _ _ _ rr])
       ((simp_all only: passing_env_def blocks)?, simp_all add: segments,
        simp_all add: run_defs codec_defs cong: let_arg_cong prod.case_cong_weak)
  with rr show ?thesis
    by (simp add: connect_sock_def microtcp_socket_def zero_sock_def)
qed

text \<open>
  C3. The claim: in \<^verbatim>\<open>microtcp_accept\<close> the acknowledgment number is set to the sequence
  number of the received SYN plus one. The code: line 284 reads the acknowledgment field
  of the SYN, \<^verbatim>\<open>socket->ack_number = syn.ack_number+1\<close>. The value is in the socket when
  the call ends at the failed transmission of the SYN+ACK, for every SYN.
\<close>

theorem accept_reads_ack_field_of_syn:
  assumes "recv_until_syn (big_endian cfg) (MICROTCP_RECVBUF_LEN cfg)
             (malloc_recvbuf e, stack_src_addr e, stack_src_addr_length e) (stack_syn e) inbox =
           Some ((ret, buf, sa, sl), syn, rest)"
    and "is_checksum_valid (big_endian cfg) crc32 (malloc_first e) buf (size_t_of ret) \<noteq> 0"
    and "sendto_first e \<noteq> int sizeof_header"
  shows "outcome (microtcp_accept cfg crc32 e socket addr alen inbox) =
         Some (sd socket, INVALID, word_of_int (rand_result e),
               microtcp_header_t.ack_number syn + 1)"
  using assms by (simp add: microtcp_accept_def outcome_def Let_def)

text \<open>
  C3 at the SYN of the scenario (sequence 100, acknowledgment 0): the socket holds
  acknowledgment number 1, not 101, and when the transmission succeeds the SYN+ACK on
  the wire carries acknowledgment 1 (the call returns at line 313, on an empty datagram).
\<close>

theorem accept_reads_ack_field_of_syn_witness:
  "outcome (microtcp_accept example_cfg crc32_reference
      ((passing_env (wire_segment 100 0 4 8192) (wire_segment 101 501 1 8192))
         \<lparr> rand_result := 500, sendto_first := - 1 \<rparr>)
      (microtcp_socket zero_sock 3) zero_addr 0
      [Recv_dgram (wire_segment 100 0 4 8192) initiator_addr 16]) =
   Some (3, INVALID, 500, 1)
   \<and> map microtcp_header_t.ack_number
       (sent_headers False (microtcp_accept example_cfg crc32_reference
          ((passing_env (wire_segment 100 0 4 8192) (wire_segment 101 501 1 8192))
             \<lparr> rand_result := 500 \<rparr>)
          (microtcp_socket zero_sock 3) zero_addr 0
          [Recv_dgram (wire_segment 100 0 4 8192) initiator_addr 16,
           Recv_dgram [] initiator_addr 16])) = [1]"
proof
  have syn_ack: "microtcp_header_t.ack_number
      (get_hbo_header False
         (header_at False (wire_segment 100 0 4 8192 @ replicate 8160 0))) = 0"
    by (simp add: segments codec_defs)
  have "outcome (microtcp_accept example_cfg crc32_reference
      ((passing_env (wire_segment 100 0 4 8192) (wire_segment 101 501 1 8192))
         \<lparr> rand_result := 500, sendto_first := - 1 \<rparr>)
      (microtcp_socket zero_sock 3) zero_addr 0
      [Recv_dgram (wire_segment 100 0 4 8192) initiator_addr 16]) =
    Some (sd (microtcp_socket zero_sock 3), INVALID,
          word_of_int (rand_result
            ((passing_env (wire_segment 100 0 4 8192) (wire_segment 101 501 1 8192))
               \<lparr> rand_result := 500, sendto_first := - 1 \<rparr>)),
          microtcp_header_t.ack_number
            (get_hbo_header False
               (header_at False (wire_segment 100 0 4 8192 @ replicate 8160 0))) + 1)"
    by (rule accept_reads_ack_field_of_syn
          [where ret = 32 and buf = "wire_segment 100 0 4 8192 @ replicate 8160 0"
             and sa = initiator_addr and sl = 16 and rest = "[]"])
       ((simp_all only: passing_env_def blocks)?, simp_all add: segments,
        simp_all add: run_defs codec_defs cong: let_arg_cong prod.case_cong_weak)
  then show "outcome (microtcp_accept example_cfg crc32_reference
      ((passing_env (wire_segment 100 0 4 8192) (wire_segment 101 501 1 8192))
         \<lparr> rand_result := 500, sendto_first := - 1 \<rparr>)
      (microtcp_socket zero_sock 3) zero_addr 0
      [Recv_dgram (wire_segment 100 0 4 8192) initiator_addr 16]) =
    Some (3, INVALID, 500, 1)"
    by (simp add: syn_ack microtcp_socket_def zero_sock_def)
  show "map microtcp_header_t.ack_number
       (sent_headers False (microtcp_accept example_cfg crc32_reference
          ((passing_env (wire_segment 100 0 4 8192) (wire_segment 101 501 1 8192))
             \<lparr> rand_result := 500 \<rparr>)
          (microtcp_socket zero_sock 3) zero_addr 0
          [Recv_dgram (wire_segment 100 0 4 8192) initiator_addr 16,
           Recv_dgram [] initiator_addr 16])) = [1]"
    by ((simp only: passing_env_def blocks)?, simp add: segments,
        simp add: run_defs codec_defs cong: let_arg_cong prod.case_cong_weak)
qed

text \<open>
  C4. The claim: the control field of an encoded header has exactly the requested flag
  bits set. The code: \<^verbatim>\<open>make_header\<close> drops the value of every \<^verbatim>\<open>set_bit\<close> call, so the
  control field is 0 whatever flags are requested, and the receiver's own test for the SYN
  bit fails on every header the encoder builds.
\<close>

theorem make_header_never_sets_flags:
  "control (make_header be crc32 seq ack win dlen ACK RST SYN FIN) = 0
   \<and> is_header_control_valid
       (get_hbo_header be (make_header be crc32 seq ack win dlen ACK RST SYN FIN)) 0 0 1 0 = 0"
  by (simp add: make_header_control get_hbo_header_def ntohs_zero is_header_control_valid_def
      get_bit_u16_def)

text \<open>
  C5. The claim: in \<^verbatim>\<open>microtcp_connect\<close> a reply that fails checksum validation, or lacks
  the SYN or the ACK flag, or acknowledges another number than the initial sequence
  number plus one, makes the connection \<^verbatim>\<open>INVALID\<close>. The code: the validation of line 211
  is given \<^verbatim>\<open>socket->recvbuf\<close>, not \<^verbatim>\<open>tmp_buf\<close>, into which line 199 received the
  reply, so the bytes of the reply take no part in it. The SYN+ACK of the scenario with
  its checksum field overwritten by \<^verbatim>\<open>DE AD BE EF\<close> is accepted: the connection ends
  \<^verbatim>\<open>ESTABLISHED\<close>.
\<close>

theorem connect_accepts_reply_with_corrupt_checksum:
  "checksum (get_hbo_header False (header_at False corrupt_synack)) \<noteq>
     crc32_reference (take 28 corrupt_synack @ [0, 0, 0, 0]) 32
   \<and> outcome (microtcp_connect example_cfg crc32_reference
        (passing_env (replicate 8192 0) []) connect_sock responder_addr 16
        [Recv_dgram corrupt_synack responder_addr 16]) =
     Some (3, ESTABLISHED, 102, 501)"
  by ((simp only: passing_env_def blocks corrupt_synack_bytes)?,
      simp add: run_defs codec_defs cong: let_arg_cong prod.case_cong_weak)

text \<open>
  C6. The claim: in the teardown scenario the close initiator, at sequence number 101,
  accepts an ACK carrying acknowledgment 102. The code: line 388 compares the
  acknowledgment number of that ACK with the sequence number before line 395 adds one to
  it, so an ACK that acknowledges the sequence number of the FIN plus one makes the
  connection \<^verbatim>\<open>INVALID\<close>, whatever else the segment holds.
\<close>

theorem shutdown_rejects_ack_of_fin_plus_one:
  assumes "sendto_first e = int sizeof_header"
    and "recvfrom (MICROTCP_RECVBUF_LEN cfg) (recvbuf socket, address socket, address_len socket)
           ev = (ret, buf, a, l)"
    and "0 < ret"
    and "microtcp_header_t.ack_number
           (get_hbo_header (big_endian cfg) (header_at (big_endian cfg) buf)) =
         seq_number socket + 1"
  shows "outcome (microtcp_shutdown cfg crc32 e socket SHUT_RDWR (ev # rest)) =
         Some (sd socket, INVALID, seq_number socket, ack_number socket)"
proof -
  have "seq_number socket + 1 \<noteq> seq_number socket"
    by simp
  with assms(4) have
    "microtcp_header_t.ack_number
       (get_hbo_header (big_endian cfg) (header_at (big_endian cfg) buf)) \<noteq> seq_number socket"
    by simp
  with assms(1-3) show ?thesis
    by (rule shutdown_rejects_ack_number)
qed

text \<open>C6 at the scenario: sequence number 101, responding ACK with acknowledgment 102.\<close>

theorem shutdown_rejects_ack_of_fin_plus_one_witness:
  "outcome (microtcp_shutdown example_cfg crc32_reference
      (passing_env (wire_segment 501 102 1 8192) (wire_segment 501 102 9 8192))
      established_sock SHUT_RDWR
      [Recv_dgram (wire_segment 501 102 1 8192) responder_addr 16,
       Recv_dgram (wire_segment 501 102 9 8192) responder_addr 16]) =
   Some (3, INVALID, 101, 501)"
proof -
  have "outcome (microtcp_shutdown example_cfg crc32_reference
      (passing_env (wire_segment 501 102 1 8192) (wire_segment 501 102 9 8192))
      established_sock SHUT_RDWR
      [Recv_dgram (wire_segment 501 102 1 8192) responder_addr 16,
       Recv_dgram (wire_segment 501 102 9 8192) responder_addr 16]) =
    Some (sd established_sock, INVALID, seq_number established_sock,
          ack_number established_sock)"
    by (rule shutdown_rejects_ack_of_fin_plus_one
          [where ret = 32 and buf = "wire_segment 501 102 1 8192 @ replicate 8160 0"
             and a = responder_addr and l = 16])
       ((simp_all only: passing_env_def blocks)?, simp_all add: segments,
        simp_all add: run_defs codec_defs cong: let_arg_cong prod.case_cong_weak)
  then show ?thesis
    by (simp add: established_sock_def zero_sock_def)
qed

text \<open>
  C7. The claim: in \<^verbatim>\<open>microtcp_send\<close> one cumulative ACK removes every covered entry from
  the set of unacknowledged segments. The code: \<^verbatim>\<open>microtcp_send\<close> has an empty body. With
  200 bytes to send from sequence number 0 and an ACK for 200 waiting, it transmits no
  segment and leaves the ACK unread.
\<close>

theorem send_transmits_nothing_counterexample:
  "r_sent (microtcp_send example_env (established_sock \<lparr> seq_number := 0 \<rparr>)
      (replicate 200 0) 200 0
      [Recv_dgram (wire_segment 501 200 1 8192) responder_addr 16]) = []
   \<and> r_inbox (microtcp_send example_env (established_sock \<lparr> seq_number := 0 \<rparr>)
      (replicate 200 0) 200 0
      [Recv_dgram (wire_segment 501 200 1 8192) responder_addr 16]) =
     [Recv_dgram (wire_segment 501 200 1 8192) responder_addr 16]"
  by (simp add: microtcp_send_def)

text \<open>
  C7, as amended: \<^verbatim>\<open>microtcp_send\<close> transmits nothing, reads no incoming segment and
  leaves the connection as it is.
\<close>

theorem send_is_a_stub:
  "r_sock (microtcp_send e socket buffer len flags inbox) = socket
   \<and> r_inbox (microtcp_send e socket buffer len flags inbox) = inbox
   \<and> r_sent (microtcp_send e socket buffer len flags inbox) = []"
  by (simp add: microtcp_send_def)

text \<open>
  C8. The claim: a segment that fails checksum validation is dropped and the operation
  keeps waiting; the connection never fails for it. The code: every call of
  \<^verbatim>\<open>is_checksum_valid\<close> is followed by \<^verbatim>\<open>socket->state = INVALID; return socket->sd;\<close>.
  In \<^verbatim>\<open>microtcp_shutdown\<close> on an established connection, a first segment whose validation
  fails ends the call with state \<^verbatim>\<open>INVALID\<close> and the next segment is left unread.
\<close>

theorem checksum_failure_counterexample:
  "is_checksum_valid False crc32_reference zero_block
     (wire_segment 501 101 1 8192 @ replicate 8160 0) 32 = 0
   \<and> outcome (microtcp_shutdown example_cfg crc32_reference example_env
        established_sock SHUT_RDWR
        [Recv_dgram (wire_segment 501 101 1 8192) responder_addr 16,
         Recv_dgram (wire_segment 501 102 9 8192) responder_addr 16]) =
     Some (3, INVALID, 101, 501)
   \<and> unread (microtcp_shutdown example_cfg crc32_reference example_env
        established_sock SHUT_RDWR
        [Recv_dgram (wire_segment 501 101 1 8192) responder_addr 16,
         Recv_dgram (wire_segment 501 102 9 8192) responder_addr 16]) =
     [Recv_dgram (wire_segment 501 102 9 8192) responder_addr 16]"
  by ((simp only: passing_env_def blocks)?, simp add: segments,
      simp add: run_defs codec_defs cong: let_arg_cong prod.case_cong_weak)

text \<open>
  C8, as amended: in \<^verbatim>\<open>microtcp_connect\<close> (line 211), \<^verbatim>\<open>microtcp_accept\<close> (lines 275 and
  322) and \<^verbatim>\<open>microtcp_shutdown\<close> (lines 380 and 412) a failed checksum validation is
  fatal: the call returns at once with state \<^verbatim>\<open>INVALID\<close> and reads no further segment.
\<close>

theorem checksum_failure_is_fatal:
  "(sendto_first e = int sizeof_header \<and>
    recv_until_from (MICROTCP_RECVBUF_LEN cfg) addr
      (stack_tmp_buf e, stack_src_addr e, stack_src_addr_length e) inbox =
      Some ((ret, tmp_buf, sa, sl), rest) \<and>
    0 < ret \<and>
    is_checksum_valid (big_endian cfg) crc32 (malloc_first e) (recvbuf socket)
      (size_t_of ret) = 0 \<longrightarrow>
      outcome (microtcp_connect cfg crc32 e socket addr alen inbox) =
        Some (sd socket, INVALID, word_of_int (rand_result e) + 1, ack_number socket) \<and>
      unread (microtcp_connect cfg crc32 e socket addr alen inbox) = rest)
   \<and> (recv_until_syn (big_endian cfg) (MICROTCP_RECVBUF_LEN cfg)
      (malloc_recvbuf e, stack_src_addr e, stack_src_addr_length e) (stack_syn e) inbox =
      Some ((ret, buf, sa, sl), syn, rest) \<and>
    is_checksum_valid (big_endian cfg) crc32 (malloc_first e) buf (size_t_of ret) = 0 \<longrightarrow>
      outcome (microtcp_accept cfg crc32 e socket addr alen inbox) =
        Some (sd socket, INVALID, seq_number socket, ack_number socket) \<and>
      unread (microtcp_accept cfg crc32 e socket addr alen inbox) = rest)
   \<and> (recv_until_syn (big_endian cfg) (MICROTCP_RECVBUF_LEN cfg)
      (malloc_recvbuf e, stack_src_addr e, stack_src_addr_length e) (stack_syn e) inbox =
      Some ((ret, buf, sa, sl), syn, mid) \<and>
    is_checksum_valid (big_endian cfg) crc32 (malloc_first e) buf (size_t_of ret) \<noteq> 0 \<and>
    sendto_first e = int sizeof_header \<and>
    recv_until_from (MICROTCP_RECVBUF_LEN cfg) sa (buf, sa, sl) mid =
      Some ((ret', buf', sa', sl'), rest) \<and>
    0 < ret' \<and>
    is_checksum_valid (big_endian cfg) crc32 (malloc_second e) buf' (recv_as_size e) = 0 \<longrightarrow>
      outcome (microtcp_accept cfg crc32 e socket addr alen inbox) =
        Some (sd socket, INVALID, word_of_int (rand_result e) + 1,
              microtcp_header_t.ack_number syn + 1) \<and>
      unread (microtcp_accept cfg crc32 e socket addr alen inbox) = rest)
   \<and> (sendto_first e = int sizeof_header \<and>
    recvfrom (MICROTCP_RECVBUF_LEN cfg) (recvbuf socket, address socket, address_len socket)
      ev = (ret, buf, sa, sl) \<and>
    0 < ret \<and>
    is_checksum_valid (big_endian cfg) crc32 (malloc_first e) buf (size_t_of ret) = 0 \<longrightarrow>
      outcome (microtcp_shutdown cfg crc32 e socket SHUT_RDWR (ev # rest)) =
        Some (sd socket, INVALID, seq_number socket, ack_number socket) \<and>
      unread (microtcp_shutdown cfg crc32 e socket SHUT_RDWR (ev # rest)) = rest)
   \<and> (sendto_first e = int sizeof_header \<and>
    recvfrom (MICROTCP_RECVBUF_LEN cfg) (recvbuf socket, address socket, address_len socket)
      ev = (ret, buf, sa, sl) \<and>
    0 < ret \<and>
    is_checksum_valid (big_endian cfg) crc32 (malloc_first e) buf (size_t_of ret) \<noteq> 0 \<and>
    microtcp_header_t.seq_number
      (get_hbo_header (big_endian cfg) (header_at (big_endian cfg) buf)) = ack_number socket \<and>
    microtcp_header_t.ack_number
      (get_hbo_header (big_endian cfg) (header_at (big_endian cfg) buf)) = seq_number socket \<and>
    is_header_control_valid
      (get_hbo_header (big_endian cfg) (header_at (big_endian cfg) buf)) 1 0 0 0 \<noteq> 0 \<and>
    state socket \<noteq> CLOSING_BY_PEER \<and>
    recvfrom (MICROTCP_RECVBUF_LEN cfg) (buf, sa, sl) ev' = (ret', buf', sa', sl') \<and>
    0 < ret' \<and>
    is_checksum_valid (big_endian cfg) crc32 (malloc_second e) buf' (size_t_of ret') = 0 \<longrightarrow>
      outcome (microtcp_shutdown cfg crc32 e socket SHUT_RDWR (ev # ev' # rest)) =
        Some (sd socket, INVALID, seq_number socket + 1, ack_number socket) \<and>
      unread (microtcp_shutdown cfg crc32 e socket SHUT_RDWR (ev # ev' # rest)) = rest)"
proof (intro conjI impI; elim conjE)
  assume "sendto_first e = int sizeof_header"
    and "recv_until_from (MICROTCP_RECVBUF_LEN cfg) addr
      (stack_tmp_buf e, stack_src_addr e, stack_src_addr_length e) inbox =
      Some ((ret, tmp_buf, sa, sl), rest)"
    and "0 < ret"
    and "is_checksum_valid (big_endian cfg) crc32 (malloc_first e) (recvbuf socket)
      (size_t_of ret) = 0"
  then have c: "outcome (microtcp_connect cfg crc32 e socket addr alen inbox) =
        Some (sd socket, INVALID, word_of_int (rand_result e) + 1, ack_number socket) \<and>
      unread (microtcp_connect cfg crc32 e socket addr alen inbox) = rest"
    by (intro connect_failed [where ret = ret and tmp_buf = tmp_buf and sa = sa and sl = sl])
       simp_all
  from c show "outcome (microtcp_connect cfg crc32 e socket addr alen inbox) =
        Some (sd socket, INVALID, word_of_int (rand_result e) + 1, ack_number socket)"
    by (rule conjunct1)
  from c show "unread (microtcp_connect cfg crc32 e socket addr alen inbox) = rest"
    by (rule conjunct2)
next
  assume a: "recv_until_syn (big_endian cfg) (MICROTCP_RECVBUF_LEN cfg)
      (malloc_recvbuf e, stack_src_addr e, stack_src_addr_length e) (stack_syn e) inbox =
      Some ((ret, buf, sa, sl), syn, rest)"
    "is_checksum_valid (big_endian cfg) crc32 (malloc_first e) buf (size_t_of ret) = 0"
  from accept_first_checksum_failed [OF a]
  show "outcome (microtcp_accept cfg crc32 e socket addr alen inbox) =
        Some (sd socket, INVALID, seq_number socket, ack_number socket)"
    by (rule conjunct1)
  from accept_first_checksum_failed [OF a]
  show "unread (microtcp_accept cfg crc32 e socket addr alen inbox) = rest"
    by (rule conjunct2)
next
  assume a: "recv_until_syn (big_endian cfg) (MICROTCP_RECVBUF_LEN cfg)
      (malloc_recvbuf e, stack_src_addr e, stack_src_addr_length e) (stack_syn e) inbox =
      Some ((ret, buf, sa, sl), syn, mid)"
    "is_checksum_valid (big_endian cfg) crc32 (malloc_first e) buf (size_t_of ret) \<noteq> 0"
    "sendto_first e = int sizeof_header"
    "recv_until_from (MICROTCP_RECVBUF_LEN cfg) sa (buf, sa, sl) mid =
      Some ((ret', buf', sa', sl'), rest)"
    "0 < ret'"
    "is_checksum_valid (big_endian cfg) crc32 (malloc_second e) buf' (recv_as_size e) = 0"
  from accept_second_checksum_failed [OF a]
  show "outcome (microtcp_accept cfg crc32 e socket addr alen inbox) =
        Some (sd socket, INVALID, word_of_int (rand_result e) + 1,
              microtcp_header_t.ack_number syn + 1)"
    by (rule conjunct1)
  from accept_second_checksum_failed [OF a]
  show "unread (microtcp_accept cfg crc32 e socket addr alen inbox) = rest"
    by (rule conjunct2)
next
  assume a: "sendto_first e = int sizeof_header"
    "recvfrom (MICROTCP_RECVBUF_LEN cfg) (recvbuf socket, address socket, address_len socket)
      ev = (ret, buf, sa, sl)"
    "0 < ret"
    "is_checksum_valid (big_endian cfg) crc32 (malloc_first e) buf (size_t_of ret) = 0"
  from shutdown_first_checksum_failed [OF a]
  show "outcome (microtcp_shutdown cfg crc32 e socket SHUT_RDWR (ev # rest)) =
        Some (sd socket, INVALID, seq_number socket, ack_number socket)"
    by (rule conjunct1)
  from shutdown_first_checksum_failed [OF a]
  show "unread (microtcp_shutdown cfg crc32 e socket SHUT_RDWR (ev # rest)) = rest"
    by (rule conjunct2)
next
  assume a: "sendto_first e = int sizeof_header"
    "recvfrom (MICROTCP_RECVBUF_LEN cfg) (recvbuf socket, address socket, address_len socket)
      ev = (ret, buf, sa, sl)"
    "0 < ret"
    "is_checksum_valid (big_endian cfg) crc32 (malloc_first e) buf (size_t_of ret) \<noteq> 0"
    "microtcp_header_t.seq_number
      (get_hbo_header (big_endian cfg) (header_at (big_endian cfg) buf)) = ack_number socket"
    "microtcp_header_t.ack_number
      (get_hbo_header (big_endian cfg) (header_at (big_endian cfg) buf)) = seq_number socket"
    "is_header_control_valid
      (get_hbo_header (big_endian cfg) (header_at (big_endian cfg) buf)) 1 0 0 0 \<noteq> 0"
    "state socket \<noteq> CLOSING_BY_PEER"
    "recvfrom (MICROTCP_RECVBUF_LEN cfg) (buf, sa, sl) ev' = (ret', buf', sa', sl')"
    "0 < ret'"
    "is_checksum_valid (big_endian cfg) crc32 (malloc_second e) buf' (size_t_of ret') = 0"
  from shutdown_second_checksum_failed [OF a]
  show "outcome (microtcp_shutdown cfg crc32 e socket SHUT_RDWR (ev # ev' # rest)) =
        Some (sd socket, INVALID, seq_number socket + 1, ack_number socket)"
    by (rule conjunct1)
  from shutdown_second_checksum_failed [OF a]
  show "unread (microtcp_shutdown cfg crc32 e socket SHUT_RDWR (ev # ev' # rest)) = rest"
    by (rule conjunct2)
qed

text \<open>
  The amended C8 at one run for each of the five validations. The run for line 322 takes
  32, the length received, for the argument \<^verbatim>\<open>recv\<close>.
\<close>

theorem checksum_failure_is_fatal_witness:
  "outcome (microtcp_connect example_cfg crc32_reference example_env
        connect_sock responder_addr 16
        [Recv_dgram (wire_segment 500 101 5 8192) responder_addr 16,
         Recv_dgram (wire_segment 101 501 1 8192) responder_addr 16]) =
     Some (3, INVALID, 101, 0)
   \<and> unread (microtcp_connect example_cfg crc32_reference example_env
        connect_sock responder_addr 16
        [Recv_dgram (wire_segment 500 101 5 8192) responder_addr 16,
         Recv_dgram (wire_segment 101 501 1 8192) responder_addr 16]) =
     [Recv_dgram (wire_segment 101 501 1 8192) responder_addr 16]
   \<and> outcome (microtcp_accept example_cfg crc32_reference
        (example_env \<lparr> rand_result := 500 \<rparr>)
        (microtcp_socket zero_sock 3) zero_addr 0
        [Recv_dgram (wire_segment 100 0 4 8192) initiator_addr 16,
         Recv_dgram (wire_segment 101 501 1 8192) initiator_addr 16]) =
     Some (3, INVALID, 0, 0)
   \<and> unread (microtcp_accept example_cfg crc32_reference
        (example_env \<lparr> rand_result := 500 \<rparr>)
        (microtcp_socket zero_sock 3) zero_addr 0
        [Recv_dgram (wire_segment 100 0 4 8192) initiator_addr 16,
         Recv_dgram (wire_segment 101 501 1 8192) initiator_addr 16]) =
     [Recv_dgram (wire_segment 101 501 1 8192) initiator_addr 16]
   \<and> outcome (microtcp_accept example_cfg crc32_reference
        ((passing_env (wire_segment 100 0 4 8192) [])
           \<lparr> rand_result := 500, recv_as_size := 32 \<rparr>)
        (microtcp_socket zero_sock 3) zero_addr 0
        [Recv_dgram (wire_segment 100 0 4 8192) initiator_addr 16,
         Recv_dgram (wire_segment 101 501 1 8192) initiator_addr 16]) =
     Some (3, INVALID, 501, 1)
   \<and> unread (microtcp_accept example_cfg crc32_reference
        ((passing_env (wire_segment 100 0 4 8192) [])
           \<lparr> rand_result := 500, recv_as_size := 32 \<rparr>)
        (microtcp_socket zero_sock 3) zero_addr 0
        [Recv_dgram (wire_segment 100 0 4 8192) initiator_addr 16,
         Recv_dgram (wire_segment 101 501 1 8192) initiator_addr 16]) =
     []
   \<and> outcome (microtcp_shutdown example_cfg crc32_reference example_env established_sock SHUT_RDWR
        [Recv_dgram (wire_segment 501 101 1 8192) responder_addr 16,
         Recv_dgram (wire_segment 501 102 9 8192) responder_addr 16]) =
     Some (3, INVALID, 101, 501)
   \<and> unread (microtcp_shutdown example_cfg crc32_reference example_env established_sock SHUT_RDWR
        [Recv_dgram (wire_segment 501 101 1 8192) responder_addr 16,
         Recv_dgram (wire_segment 501 102 9 8192) responder_addr 16]) =
     [Recv_dgram (wire_segment 501 102 9 8192) responder_addr 16]
   \<and> outcome (microtcp_shutdown example_cfg crc32_reference
        (passing_env (wire_segment 501 101 1 8192) []) established_sock SHUT_RDWR
        [Recv_dgram (wire_segment 501 101 1 8192) responder_addr 16,
         Recv_dgram (wire_segment 501 102 9 8192) responder_addr 16]) =
     Some (3, INVALID, 102, 501)
   \<and> unread (microtcp_shutdown example_cfg crc32_reference
        (passing_env (wire_segment 501 101 1 8192) []) established_sock SHUT_RDWR
        [Recv_dgram (wire_segment 501 101 1 8192) responder_addr 16,
         Recv_dgram (wire_segment 501 102 9 8192) responder_addr 16]) =
     []"
proof -
  have runa:
    "outcome (microtcp_connect example_cfg crc32_reference example_env
        connect_sock responder_addr 16
        [Recv_dgram (wire_segment 500 101 5 8192) responder_addr 16,
         Recv_dgram (wire_segment 101 501 1 8192) responder_addr 16]) =
       Some (sd connect_sock, INVALID, word_of_int (rand_result example_env) + 1,
           ack_number connect_sock)
     \<and> unread (microtcp_connect example_cfg crc32_reference example_env
        connect_sock responder_addr 16
        [Recv_dgram (wire_segment 500 101 5 8192) responder_addr 16,
         Recv_dgram (wire_segment 101 501 1 8192) responder_addr 16]) =
       [Recv_dgram (wire_segment 101 501 1 8192) responder_addr 16]"
    by (rule checksum_failure_is_fatal
          [where ret = 32 and tmp_buf = "wire_segment 500 101 5 8192 @ replicate 8160 0"
               and sa = responder_addr and sl = 16,
           THEN conjunct1, THEN mp])
       ((simp only: passing_env_def blocks)?, simp add: segments,
        simp add: run_defs codec_defs cong: let_arg_cong prod.case_cong_weak)
  have runb:
    "outcome (microtcp_accept example_cfg crc32_reference
        (example_env \<lparr> rand_result := 500 \<rparr>)
        (microtcp_socket zero_sock 3) zero_addr 0
        [Recv_dgram (wire_segment 100 0 4 8192) initiator_addr 16,
         Recv_dgram (wire_segment 101 501 1 8192) initiator_addr 16]) =
       Some (sd (microtcp_socket zero_sock 3), INVALID, seq_number (microtcp_socket zero_sock 3),
           ack_number (microtcp_socket zero_sock 3))
     \<and> unread (microtcp_accept example_cfg crc32_reference
        (example_env \<lparr> rand_result := 500 \<rparr>)
        (microtcp_socket zero_sock 3) zero_addr 0
        [Recv_dgram (wire_segment 100 0 4 8192) initiator_addr 16,
         Recv_dgram (wire_segment 101 501 1 8192) initiator_addr 16]) =
       [Recv_dgram (wire_segment 101 501 1 8192) initiator_addr 16]"
    by (rule checksum_failure_is_fatal
          [where ret = 32 and buf = "wire_segment 100 0 4 8192 @ replicate 8160 0"
               and sa = initiator_addr and sl = 16
               and syn = "get_hbo_header False
                            (header_at False (wire_segment 100 0 4 8192 @ replicate 8160 0))",
           THEN conjunct2, THEN conjunct1, THEN mp])
       ((simp only: passing_env_def blocks)?, simp add: segments,
        simp add: run_defs codec_defs cong: let_arg_cong prod.case_cong_weak)
  have runc:
    "outcome (microtcp_accept example_cfg crc32_reference
        ((passing_env (wire_segment 100 0 4 8192) [])
           \<lparr> rand_result := 500, recv_as_size := 32 \<rparr>)
        (microtcp_socket zero_sock 3) zero_addr 0
        [Recv_dgram (wire_segment 100 0 4 8192) initiator_addr 16,
         Recv_dgram (wire_segment 101 501 1 8192) initiator_addr 16]) =
       Some (sd (microtcp_socket zero_sock 3), INVALID,
           word_of_int (rand_result
             ((passing_env (wire_segment 100 0 4 8192) [])
           \<lparr> rand_result := 500, recv_as_size := 32 \<rparr>)) + 1,
           microtcp_header_t.ack_number
             (get_hbo_header False
                (header_at False (wire_segment 100 0 4 8192 @ replicate 8160 0))) + 1)
     \<and> unread (microtcp_accept example_cfg crc32_reference
        ((passing_env (wire_segment 100 0 4 8192) [])
           \<lparr> rand_result := 500, recv_as_size := 32 \<rparr>)
        (microtcp_socket zero_sock 3) zero_addr 0
        [Recv_dgram (wire_segment 100 0 4 8192) initiator_addr 16,
         Recv_dgram (wire_segment 101 501 1 8192) initiator_addr 16]) =
       []"
    by (rule checksum_failure_is_fatal
          [where ret = 32 and buf = "wire_segment 100 0 4 8192 @ replicate 8160 0"
               and sa = initiator_addr and sl = 16
               and mid = "[Recv_dgram (wire_segment 101 501 1 8192) initiator_addr 16]"
               and ret' = 32 and buf' = "wire_segment 101 501 1 8192 @ replicate 8160 0"
               and sa' = initiator_addr and sl' = 16,
           THEN conjunct2, THEN conjunct2, THEN conjunct1, THEN mp])
       ((simp only: passing_env_def blocks)?, simp add: segments,
        simp add: run_defs codec_defs cong: let_arg_cong prod.case_cong_weak)
  have rund:
    "outcome (microtcp_shutdown example_cfg crc32_reference example_env established_sock SHUT_RDWR
        [Recv_dgram (wire_segment 501 101 1 8192) responder_addr 16,
         Recv_dgram (wire_segment 501 102 9 8192) responder_addr 16]) =
       Some (sd established_sock, INVALID, seq_number established_sock,
           ack_number established_sock)
     \<and> unread (microtcp_shutdown example_cfg crc32_reference example_env established_sock SHUT_RDWR
        [Recv_dgram (wire_segment 501 101 1 8192) responder_addr 16,
         Recv_dgram (wire_segment 501 102 9 8192) responder_addr 16]) =
       [Recv_dgram (wire_segment 501 102 9 8192) responder_addr 16]"
    by (rule checksum_failure_is_fatal
          [where ret = 32 and buf = "wire_segment 501 101 1 8192 @ replicate 8160 0"
               and sa = responder_addr and sl = 16,
           THEN conjunct2, THEN conjunct2, THEN conjunct2, THEN conjunct1, THEN mp])
       ((simp only: passing_env_def blocks)?, simp add: segments,
        simp add: run_defs codec_defs cong: let_arg_cong prod.case_cong_weak)
  have rune:
    "outcome (microtcp_shutdown example_cfg crc32_reference
        (passing_env (wire_segment 501 101 1 8192) []) established_sock SHUT_RDWR
        [Recv_dgram (wire_segment 501 101 1 8192) responder_addr 16,
         Recv_dgram (wire_segment 501 102 9 8192) responder_addr 16]) =
       Some (sd established_sock, INVALID, seq_number established_sock + 1,
           ack_number established_sock)
     \<and> unread (microtcp_shutdown example_cfg crc32_reference
        (passing_env (wire_segment 501 101 1 8192) []) established_sock SHUT_RDWR
        [Recv_dgram (wire_segment 501 101 1 8192) responder_addr 16,
         Recv_dgram (wire_segment 501 102 9 8192) responder_addr 16]) =
       []"
    by (rule checksum_failure_is_fatal
          [where ret = 32 and buf = "wire_segment 501 101 1 8192 @ replicate 8160 0"
               and sa = responder_addr and sl = 16
               and ret' = 32 and buf' = "wire_segment 501 102 9 8192 @ replicate 8160 0"
               and sa' = responder_addr and sl' = 16,
           THEN conjunct2, THEN conjunct2, THEN conjunct2, THEN conjunct2, THEN mp])
       ((simp only: passing_env_def blocks)?, simp add: segments,
        simp add: run_defs codec_defs cong: let_arg_cong prod.case_cong_weak)
  have syn_ack: "microtcp_header_t.ack_number
      (get_hbo_header False
         (header_at False (wire_segment 100 0 4 8192 @ replicate 8160 0))) = 0"
    by (simp add: segments codec_defs)
  from runa runb runc rund rune show ?thesis
    by (simp add: syn_ack connect_sock_def microtcp_socket_def zero_sock_def
        established_sock_def example_env_def)
qed

text \<open>
  C9. The claim: \<^verbatim>\<open>microtcp_connect\<close>, \<^verbatim>\<open>microtcp_accept\<close> and \<^verbatim>\<open>microtcp_shutdown\<close> return
  the socket descriptor on success and on every failure path, and a failure shows in the
  state only, which is \<^verbatim>\<open>INVALID\<close>. The code, path by path: every path that returns
  gives the socket descriptor and leaves it unchanged; success ends \<^verbatim>\<open>ESTABLISHED\<close> or
  \<^verbatim>\<open>CLOSED\<close>; every failure path ends \<^verbatim>\<open>INVALID\<close> but one: when the reply awaited by
  \<^verbatim>\<open>microtcp_connect\<close> comes with \<^verbatim>\<open>ret <= 0\<close>, line 206 reads \<^verbatim>\<open>socket->state = ;\<close> and
  names no state.
\<close>

theorem operations_return_socket_descriptor:
  "outcome (microtcp_connect cfg crc32 e socket addr alen inbox) =
     (if sendto_first e \<noteq> int sizeof_header
      then Some (sd socket, INVALID, word_of_int (rand_result e), ack_number socket)
      else
        (case recv_until_from (MICROTCP_RECVBUF_LEN cfg) addr
                (stack_tmp_buf e, stack_src_addr e, stack_src_addr_length e) inbox of
           None \<Rightarrow> None
         | Some ((ret, tmp_buf, sa, sl), rest) \<Rightarrow>
             if ret \<le> 0
             then Some (sd socket, line_206_state e, word_of_int (rand_result e) + 1,
                        ack_number socket)
             else if is_checksum_valid (big_endian cfg) crc32 (malloc_first e)
                       (recvbuf socket) (size_t_of ret) = 0
                     \<or> is_header_control_valid (get_hbo_header (big_endian cfg) (header_at (big_endian cfg) tmp_buf)) 1 0 1 0 = 0
                     \<or> microtcp_header_t.ack_number (get_hbo_header (big_endian cfg) (header_at (big_endian cfg) tmp_buf)) \<noteq>
                         word_of_int (rand_result e) + 1
             then Some (sd socket, INVALID, word_of_int (rand_result e) + 1,
                        ack_number socket)
             else if sendto_second e \<noteq> int sizeof_header
             then Some (sd socket, INVALID, word_of_int (rand_result e) + 1,
                        microtcp_header_t.seq_number (get_hbo_header (big_endian cfg) (header_at (big_endian cfg) tmp_buf)) + 1)
             else Some (sd socket, ESTABLISHED, word_of_int (rand_result e) + 2,
                        microtcp_header_t.seq_number (get_hbo_header (big_endian cfg) (header_at (big_endian cfg) tmp_buf)) + 1)))
   \<and> outcome (microtcp_accept cfg crc32 e socket addr alen inbox) =
     (case recv_until_syn (big_endian cfg) (MICROTCP_RECVBUF_LEN cfg)
             (malloc_recvbuf e, stack_src_addr e, stack_src_addr_length e) (stack_syn e)
             inbox of
        None \<Rightarrow> None
      | Some ((ret, buf, sa, sl), syn, mid) \<Rightarrow>
          if is_checksum_valid (big_endian cfg) crc32 (malloc_first e) buf (size_t_of ret) = 0
          then Some (sd socket, INVALID, seq_number socket, ack_number socket)
          else if sendto_first e \<noteq> int sizeof_header
          then Some (sd socket, INVALID, word_of_int (rand_result e),
                     microtcp_header_t.ack_number syn + 1)
          else
            (case recv_until_from (MICROTCP_RECVBUF_LEN cfg) sa (buf, sa, sl) mid of
               None \<Rightarrow> None
             | Some ((ret', buf', sa', sl'), rest) \<Rightarrow>
                 if ret' \<le> 0
                    \<or> is_checksum_valid (big_endian cfg) crc32 (malloc_second e) buf'
                        (recv_as_size e) = 0
                    \<or> is_header_control_valid (get_hbo_header (big_endian cfg) (header_at (big_endian cfg) buf')) 1 0 0 0 = 0
                 then Some (sd socket, INVALID, word_of_int (rand_result e) + 1,
                            microtcp_header_t.ack_number syn + 1)
                 else Some (sd socket, ESTABLISHED, word_of_int (rand_result e) + 1,
                            microtcp_header_t.seq_number (get_hbo_header (big_endian cfg) (header_at (big_endian cfg) buf')) + 1)))
   \<and> outcome (microtcp_shutdown cfg crc32 e socket how inbox) =
     (if how \<noteq> SHUT_RDWR
      then Some (sd socket, state socket, seq_number socket, ack_number socket)
      else if sendto_first e \<noteq> int sizeof_header
      then Some (sd socket, INVALID, seq_number socket, ack_number socket)
      else
        (case inbox of
           [] \<Rightarrow> None
         | ev # rest \<Rightarrow>
             (case recvfrom (MICROTCP_RECVBUF_LEN cfg)
                     (recvbuf socket, address socket, address_len socket) ev of
                (ret, buf, sa, sl) \<Rightarrow>
                  if ret \<le> 0
                     \<or> is_checksum_valid (big_endian cfg) crc32 (malloc_first e) buf
                         (size_t_of ret) = 0
                     \<or> microtcp_header_t.seq_number (get_hbo_header (big_endian cfg) (header_at (big_endian cfg) buf)) \<noteq> ack_number socket
                     \<or> microtcp_header_t.ack_number (get_hbo_header (big_endian cfg) (header_at (big_endian cfg) buf)) \<noteq> seq_number socket
                     \<or> is_header_control_valid (get_hbo_header (big_endian cfg) (header_at (big_endian cfg) buf)) 1 0 0 0 = 0
                  then Some (sd socket, INVALID, seq_number socket, ack_number socket)
                  else if state socket = CLOSING_BY_PEER
                  then Some (sd socket, CLOSED, seq_number socket + 1, ack_number socket)
                  else
                    (case rest of
                       [] \<Rightarrow> None
                     | ev' # rest' \<Rightarrow>
                         (case recvfrom (MICROTCP_RECVBUF_LEN cfg) (buf, sa, sl) ev' of
                            (ret', buf', sa', sl') \<Rightarrow>
                              if ret' \<le> 0
                                 \<or> is_checksum_valid (big_endian cfg) crc32 (malloc_second e)
                                     buf' (size_t_of ret') = 0
                                 \<or> microtcp_header_t.ack_number (get_hbo_header (big_endian cfg) (header_at (big_endian cfg) buf')) \<noteq>
                                     seq_number socket + 1
                                 \<or> is_header_control_valid (get_hbo_header (big_endian cfg) (header_at (big_endian cfg) buf')) 1 0 0 1 = 0
                              then Some (sd socket, INVALID, seq_number socket + 1,
                                         ack_number socket)
                              else if sendto_second e < 0
                              then Some (sd socket, INVALID, seq_number socket + 1,
                                         microtcp_header_t.seq_number (get_hbo_header (big_endian cfg) (header_at (big_endian cfg) buf')) + 1)
                              else Some (sd socket, CLOSED, seq_number socket + 1,
                                         microtcp_header_t.seq_number (get_hbo_header (big_endian cfg) (header_at (big_endian cfg) buf')) + 1))))))
   \<and> (microtcp_connect cfg crc32 e socket addr alen inbox = Some r \<longrightarrow>
      r_value r = sd socket \<and> sd (r_sock r) = sd socket)
   \<and> (microtcp_accept cfg crc32 e socket addr alen inbox = Some r \<longrightarrow>
      r_value r = sd socket \<and> sd (r_sock r) = sd socket)
   \<and> (microtcp_shutdown cfg crc32 e socket how inbox = Some r \<longrightarrow>
      r_value r = sd socket \<and> sd (r_sock r) = sd socket)"
proof (intro conjI impI)
  show "outcome (microtcp_connect cfg crc32 e socket addr alen inbox) =
     (if sendto_first e \<noteq> int sizeof_header
      then Some (sd socket, INVALID, word_of_int (rand_result e), ack_number socket)
      else
        (case recv_until_from (MICROTCP_RECVBUF_LEN cfg) addr
                (stack_tmp_buf e, stack_src_addr e, stack_src_addr_length e) inbox of
           None \<Rightarrow> None
         | Some ((ret, tmp_buf, sa, sl), rest) \<Rightarrow>
             if ret \<le> 0
             then Some (sd socket, line_206_state e, word_of_int (rand_result e) + 1,
                        ack_number socket)
             else if is_checksum_valid (big_endian cfg) crc32 (malloc_first e)
                       (recvbuf socket) (size_t_of ret) = 0
                     \<or> is_header_control_valid (get_hbo_header (big_endian cfg) (header_at (big_endian cfg) tmp_buf)) 1 0 1 0 = 0
                     \<or> microtcp_header_t.ack_number (get_hbo_header (big_endian cfg) (header_at (big_endian cfg) tmp_buf)) \<noteq>
                         word_of_int (rand_result e) + 1
             then Some (sd socket, INVALID, word_of_int (rand_result e) + 1,
                        ack_number socket)
             else if sendto_second e \<noteq> int sizeof_header
             then Some (sd socket, INVALID, word_of_int (rand_result e) + 1,
                        microtcp_header_t.seq_number (get_hbo_header (big_endian cfg) (header_at (big_endian cfg) tmp_buf)) + 1)
             else Some (sd socket, ESTABLISHED, word_of_int (rand_result e) + 2,
                        microtcp_header_t.seq_number (get_hbo_header (big_endian cfg) (header_at (big_endian cfg) tmp_buf)) + 1)))"
    by (rule connect_outcome)
  show "outcome (microtcp_accept cfg crc32 e socket addr alen inbox) =
     (case recv_until_syn (big_endian cfg) (MICROTCP_RECVBUF_LEN cfg)
             (malloc_recvbuf e, stack_src_addr e, stack_src_addr_length e) (stack_syn e)
             inbox of
        None \<Rightarrow> None
      | Some ((ret, buf, sa, sl), syn, mid) \<Rightarrow>
          if is_checksum_valid (big_endian cfg) crc32 (malloc_first e) buf (size_t_of ret) = 0
          then Some (sd socket, INVALID, seq_number socket, ack_number socket)
          else if sendto_first e \<noteq> int sizeof_header
          then Some (sd socket, INVALID, word_of_int (rand_result e),
                     microtcp_header_t.ack_number syn + 1)
          else
            (case recv_until_from (MICROTCP_RECVBUF_LEN cfg) sa (buf, sa, sl) mid of
               None \<Rightarrow> None
             | Some ((ret', buf', sa', sl'), rest) \<Rightarrow>
                 if ret' \<le> 0
                    \<or> is_checksum_valid (big_endian cfg) crc32 (malloc_second e) buf'
                        (recv_as_size e) = 0
                    \<or> is_header_control_valid (get_hbo_header (big_endian cfg) (header_at (big_endian cfg) buf')) 1 0 0 0 = 0
                 then Some (sd socket, INVALID, word_of_int (rand_result e) + 1,
                            microtcp_header_t.ack_number syn + 1)
                 else Some (sd socket, ESTABLISHED, word_of_int (rand_result e) + 1,
                            microtcp_header_t.seq_number (get_hbo_header (big_endian cfg) (header_at (big_endian cfg) buf')) + 1)))"
    by (rule accept_outcome)
  show "outcome (microtcp_shutdown cfg crc32 e socket how inbox) =
     (if how \<noteq> SHUT_RDWR
      then Some (sd socket, state socket, seq_number socket, ack_number socket)
      else if sendto_first e \<noteq> int sizeof_header
      then Some (sd socket, INVALID, seq_number socket, ack_number socket)
      else
        (case inbox of
           [] \<Rightarrow> None
         | ev # rest \<Rightarrow>
             (case recvfrom (MICROTCP_RECVBUF_LEN cfg)
                     (recvbuf socket, address socket, address_len socket) ev of
                (ret, buf, sa, sl) \<Rightarrow>
                  if ret \<le> 0
                     \<or> is_checksum_valid (big_endian cfg) crc32 (malloc_first e) buf
                         (size_t_of ret) = 0
                     \<or> microtcp_header_t.seq_number (get_hbo_header (big_endian cfg) (header_at (big_endian cfg) buf)) \<noteq> ack_number socket
                     \<or> microtcp_header_t.ack_number (get_hbo_header (big_endian cfg) (header_at (big_endian cfg) buf)) \<noteq> seq_number socket
                     \<or> is_header_control_valid (get_hbo_header (big_endian cfg) (header_at (big_endian cfg) buf)) 1 0 0 0 = 0
                  then Some (sd socket, INVALID, seq_number socket, ack_number socket)
                  else if state socket = CLOSING_BY_PEER
                  then Some (sd socket, CLOSED, seq_number socket + 1, ack_number socket)
                  else
                    (case rest of
                       [] \<Rightarrow> None
                     | ev' # rest' \<Rightarrow>
                         (case recvfrom (MICROTCP_RECVBUF_LEN cfg) (buf, sa, sl) ev' of
                            (ret', buf', sa', sl') \<Rightarrow>
                              if ret' \<le> 0
                                 \<or> is_checksum_valid (big_endian cfg) crc32 (malloc_second e)
                                     buf' (size_t_of ret') = 0
                                 \<or> microtcp_header_t.ack_number (get_hbo_header (big_endian cfg) (header_at (big_endian cfg) buf')) \<noteq>
                                     seq_number socket + 1
                                 \<or> is_header_control_valid (get_hbo_header (big_endian cfg) (header_at (big_endian cfg) buf')) 1 0 0 1 = 0
                              then Some (sd socket, INVALID, seq_number socket + 1,
                                         ack_number socket)
                              else if sendto_second e < 0
                              then Some (sd socket, INVALID, seq_number socket + 1,
                                         microtcp_header_t.seq_number (get_hbo_header (big_endian cfg) (header_at (big_endian cfg) buf')) + 1)
                              else Some (sd socket, CLOSED, seq_number socket + 1,
                                         microtcp_header_t.seq_number (get_hbo_header (big_endian cfg) (header_at (big_endian cfg) buf')) + 1))))))"
    by (rule shutdown_outcome)
qed (simp_all add: returns_sd_connect returns_sd_accept returns_sd_shutdown)

text \<open>
  C9 at six runs on descriptor 3: \<^verbatim>\<open>microtcp_connect\<close> succeeding, receiving an empty
  datagram from the peer (line 206: the state is the one \<^verbatim>\<open>microtcp_socket\<close> left) and
  failing to send the SYN; \<^verbatim>\<open>microtcp_accept\<close> failing the validation of the SYN;
  \<^verbatim>\<open>microtcp_shutdown\<close> succeeding and failing to receive.
\<close>

theorem operations_return_socket_descriptor_witness:
  "outcome (microtcp_connect example_cfg crc32_reference
      (passing_env (replicate 8192 0) []) connect_sock responder_addr 16
      [Recv_dgram (wire_segment 500 101 5 8192) responder_addr 16]) =
   Some (3, ESTABLISHED, 102, 501)
   \<and> outcome (microtcp_connect example_cfg crc32_reference
      (passing_env (replicate 8192 0) []) connect_sock responder_addr 16
      [Recv_dgram [] responder_addr 16]) =
   Some (3, UNKNOWN, 101, 0)
   \<and> outcome (microtcp_connect example_cfg crc32_reference
      ((passing_env (replicate 8192 0) []) \<lparr> sendto_first := - 1 \<rparr>)
      connect_sock responder_addr 16
      [Recv_dgram (wire_segment 500 101 5 8192) responder_addr 16]) =
   Some (3, INVALID, 100, 0)
   \<and> outcome (microtcp_accept example_cfg crc32_reference
      (example_env \<lparr> rand_result := 500 \<rparr>)
      (microtcp_socket zero_sock 3) zero_addr 0
      [Recv_dgram (wire_segment 100 0 4 8192) initiator_addr 16]) =
   Some (3, INVALID, 0, 0)
   \<and> outcome (microtcp_shutdown example_cfg crc32_reference
      (passing_env (wire_segment 501 101 1 8192) (wire_segment 501 102 9 8192))
      established_sock SHUT_RDWR
      [Recv_dgram (wire_segment 501 101 1 8192) responder_addr 16,
       Recv_dgram (wire_segment 501 102 9 8192) responder_addr 16]) =
   Some (3, CLOSED, 102, 502)
   \<and> outcome (microtcp_shutdown example_cfg crc32_reference example_env
      established_sock SHUT_RDWR [Recv_error]) =
   Some (3, INVALID, 101, 501)"
proof -
  note paths =
    operations_return_socket_descriptor [THEN conjunct1]
    operations_return_socket_descriptor [THEN conjunct2, THEN conjunct1]
    operations_return_socket_descriptor [THEN conjunct2, THEN conjunct2, THEN conjunct1]
  show ?thesis
    by (simp only: paths, simp only: passing_env_def blocks, simp add: segments,
        simp add: recvfrom_def is_equal_addresses_def c_string_def size_t_of_def
          example_cfg_def example_env_def zero_sock_def established_sock_def zero_addr_def
          zero_header_def initiator_addr_def responder_addr_def SHUT_RDWR_def
          connect_sock_def microtcp_socket_def codec_defs
          cong: let_arg_cong prod.case_cong_weak)
qed

text \<open>
  C10. \<^verbatim>\<open>microtcp_shutdown\<close> with \<^verbatim>\<open>how\<close> other than \<^verbatim>\<open>SHUT_RDWR\<close> returns the socket
  descriptor, sends nothing, reads nothing and leaves every field of the connection
  unchanged.
\<close>

theorem shutdown_other_how_is_noop:
  "how \<noteq> SHUT_RDWR \<Longrightarrow>
   microtcp_shutdown cfg crc32 e socket how inbox =
     Some \<lparr> r_value = sd socket, r_sock = socket, r_inbox = inbox, r_sent = [] \<rparr>"
  by (simp add: microtcp_shutdown_def)

text \<open>C10 at \<^verbatim>\<open>how = 1\<close> on an established connection with a segment waiting.\<close>

theorem shutdown_other_how_is_noop_witness:
  "microtcp_shutdown example_cfg crc32_reference example_env established_sock 1
     [Recv_dgram (wire_segment 501 101 1 8192) responder_addr 16] =
   Some \<lparr> r_value = 3, r_sock = established_sock,
          r_inbox = [Recv_dgram (wire_segment 501 101 1 8192) responder_addr 16],
          r_sent = [] \<rparr>"
proof -
  have "(1 :: int) \<noteq> SHUT_RDWR"
    by (simp add: SHUT_RDWR_def)
  from shutdown_other_how_is_noop [OF this] show ?thesis
    by (simp add: established_sock_def zero_sock_def)
qed

end
